theory Spec2Isabelle
  imports Main "HOL-Library.Word"
begin

section \<open>The plant-watering sketch (ESP32), both variants\<close>

text \<open>
  The repository holds two versions of one Arduino sketch. The first (the light-aware variant,
  names without suffix here) reads an analog LDR and walks a list of Wi-Fi credentials; the
  second (names with suffix \<open>_v2\<close>) reads a digital light detector and has one fixed
  credential. Both share the constants, \<open>isNightHour\<close>, \<open>updateLocalTime\<close>, \<open>blinkLED\<close>,
  \<open>sendToThingSpeak\<close> and the shape of \<open>loop\<close>.

  Everything the sketch does to the outside world is an \<open>event\<close> appended to the trace of the
  state; everything it reads from the outside world is answered by the environment \<open>env\<close>,
  which is asked with the number of reads made so far (\<open>tick\<close>), so that two reads of the same
  sensor may give two different answers.
\<close>

subsection \<open>Values\<close>

text \<open>Pin levels: \<open>LOW\<close> is 0 and \<open>HIGH\<close> is 1 in the Arduino core.\<close>

datatype level = LOW | HIGH

fun level_int :: "level \<Rightarrow> int" where
  "level_int LOW = 0"
| "level_int HIGH = 1"

text \<open>A C \<open>float\<close> is kept as its 32 bits: the sketch only stores, passes and prints floats.\<close>

type_synonym float = "32 word"

text \<open>Conversion of a C++ \<open>bool\<close> to \<open>int\<close> (argument \<open>agua\<close> of \<open>sendToThingSpeak\<close>).\<close>

definition bool_int :: "bool \<Rightarrow> int" where
  "bool_int b = (if b then 1 else 0)"

subsection \<open>Pins and constants\<close>

definition LDR_PIN :: nat where "LDR_PIN = 32"
definition LDR_PIN_v2 :: nat where "LDR_PIN_v2 = 17"
definition SOIL_PIN :: nat where "SOIL_PIN = 34"
definition DHT_PIN :: nat where "DHT_PIN = 23"
definition LED_PIN :: nat where "LED_PIN = 26"
definition BOIA_PIN :: nat where "BOIA_PIN = 27"
definition RELE_PIN :: nat where "RELE_PIN = 14"

definition NTP_SERVER :: string where "NTP_SERVER = ''pool.ntp.org''"
definition GMT_OFFSET_SEC :: int where "GMT_OFFSET_SEC = - 3 * 3600"
definition DAYLIGHT_OFFSET_SEC :: int where "DAYLIGHT_OFFSET_SEC = 0"

definition SOIL_MOISTURE_THRESHOLD :: int where "SOIL_MOISTURE_THRESHOLD = 1200"
definition WIFI_MAX_ATTEMPTS :: int where "WIFI_MAX_ATTEMPTS = 15"
definition LED_BLINK_SHORT :: int where "LED_BLINK_SHORT = 200"
definition LED_BLINK_LONG :: int where "LED_BLINK_LONG = 300"
definition PUMP_ON_TIME_MS :: int where "PUMP_ON_TIME_MS = 3000"
definition LOOP_DELAY_MS :: int where "LOOP_DELAY_MS = 15000"
definition LDR_DARK_THRESHOLD :: int where "LDR_DARK_THRESHOLD = 1500"

definition NIGHT_START_HOUR :: int where "NIGHT_START_HOUR = 18"
definition NIGHT_END_HOUR :: int where "NIGHT_END_HOUR = 12"

definition isNightHour :: "int \<Rightarrow> bool" where
  "isNightHour hour \<longleftrightarrow> hour \<ge> NIGHT_START_HOUR \<or> hour < NIGHT_END_HOUR"

subsection \<open>Events, environment, configuration, state\<close>

datatype event =
    DigitalWrite nat level
  | Delay int
  | SerialPrint string
  | SerialPrintln string
  | SerialPrintFloat float
  | SerialPrintlnTime int string
  | WiFiBegin string string
  | ConfigTime int int string
  | HttpBegin string
  | HttpGET
  | HttpEnd

text \<open>
  The environment answers every read. \<open>floatStr\<close> is the Arduino core's rendering of a float
  appended to a \<open>String\<close>; it is library code and stays a parameter.
\<close>

record env =
  WiFi_connected :: "nat \<Rightarrow> bool"
  localTime :: "nat \<Rightarrow> bool \<times> int"
  analogIn :: "nat \<Rightarrow> nat \<Rightarrow> int"
  digitalIn :: "nat \<Rightarrow> nat \<Rightarrow> level"
  dhtHumidity :: "nat \<Rightarrow> float"
  dhtTemperature :: "nat \<Rightarrow> float"
  httpAnswer :: "nat \<Rightarrow> int"
  floatStr :: "float \<Rightarrow> string"

text \<open>
  The header \<open>chaves.h\<close> is not part of the sources; what the sketch takes from it is a
  parameter. \<open>WIFI_TOTAL\<close> is the length of \<open>WIFI_LIST\<close>.
\<close>

record chaves =
  WRITE_KEY :: string
  WIFI_LIST :: "(string \<times> string) list"
  WIFI_NAME :: string
  WIFI_SENHA :: string

record state =
  wifiConnected :: bool
  timeValid :: bool
  tick :: nat
  trace :: "event list"

definition emit :: "event \<Rightarrow> state \<Rightarrow> state" where
  "emit e s = s\<lparr>trace := trace s @ [e]\<rparr>"

definition digitalWrite :: "nat \<Rightarrow> level \<Rightarrow> state \<Rightarrow> state" where
  "digitalWrite p l = emit (DigitalWrite p l)"

definition delay :: "int \<Rightarrow> state \<Rightarrow> state" where
  "delay ms = emit (Delay ms)"

definition Serial_print :: "string \<Rightarrow> state \<Rightarrow> state" where
  "Serial_print x = emit (SerialPrint x)"

definition Serial_println :: "string \<Rightarrow> state \<Rightarrow> state" where
  "Serial_println x = emit (SerialPrintln x)"

definition WiFi_status :: "env \<Rightarrow> state \<Rightarrow> bool \<times> state" where
  "WiFi_status E s = (WiFi_connected E (tick s), s\<lparr>tick := Suc (tick s)\<rparr>)"

definition getLocalTime :: "env \<Rightarrow> state \<Rightarrow> (bool \<times> int) \<times> state" where
  "getLocalTime E s = (localTime E (tick s), s\<lparr>tick := Suc (tick s)\<rparr>)"

definition analogRead :: "env \<Rightarrow> nat \<Rightarrow> state \<Rightarrow> int \<times> state" where
  "analogRead E p s = (analogIn E p (tick s), s\<lparr>tick := Suc (tick s)\<rparr>)"

definition digitalRead :: "env \<Rightarrow> nat \<Rightarrow> state \<Rightarrow> level \<times> state" where
  "digitalRead E p s = (digitalIn E p (tick s), s\<lparr>tick := Suc (tick s)\<rparr>)"

definition dht_readHumidity :: "env \<Rightarrow> state \<Rightarrow> float \<times> state" where
  "dht_readHumidity E s = (dhtHumidity E (tick s), s\<lparr>tick := Suc (tick s)\<rparr>)"

definition dht_readTemperature :: "env \<Rightarrow> state \<Rightarrow> float \<times> state" where
  "dht_readTemperature E s = (dhtTemperature E (tick s), s\<lparr>tick := Suc (tick s)\<rparr>)"

definition http_GET :: "env \<Rightarrow> state \<Rightarrow> int \<times> state" where
  "http_GET E s = (httpAnswer E (tick s), (emit HttpGET s)\<lparr>tick := Suc (tick s)\<rparr>)"

text \<open>The events a run from \<open>s\<close> to \<open>s'\<close> has added.\<close>

definition emitted :: "state \<Rightarrow> state \<Rightarrow> event list" where
  "emitted s s' = drop (length (trace s)) (trace s')"

subsection \<open>Decimal rendering of an \<open>int\<close> appended to a \<open>String\<close>\<close>

definition digit_char :: "nat \<Rightarrow> char" where
  "digit_char d = ''0123456789'' ! d"

function digits :: "nat \<Rightarrow> string" where
  "digits n = (if n < 10 then [digit_char n] else digits (n div 10) @ [digit_char (n mod 10)])"
  by pat_completeness auto
termination
  by (relation "measure id") auto

declare digits.simps [simp del]

definition String_int :: "int \<Rightarrow> string" where
  "String_int n = (if n < 0 then CHR ''-'' # digits (nat (- n)) else digits (nat n))"

subsection \<open>\<open>updateLocalTime\<close> and \<open>blinkLED\<close>\<close>

definition updateLocalTime :: "env \<Rightarrow> state \<Rightarrow> bool \<times> state" where
  "updateLocalTime E s =
     (case getLocalTime E s of ((ok, hour), s1) \<Rightarrow>
        if \<not> ok then (False, (Serial_println ''Falha ao obter hora.'' s1)\<lparr>timeValid := False\<rparr>)
        else (True, (emit (SerialPrintlnTime hour ''%H:%M:%S'')
                       (Serial_print ''Hora atual: '' s1))\<lparr>timeValid := True\<rparr>))"

function blinkLED_loop :: "int \<Rightarrow> int \<Rightarrow> int \<Rightarrow> state \<Rightarrow> state" where
  "blinkLED_loop i ntimes delayTime s =
     (if i < ntimes
      then blinkLED_loop (i + 1) ntimes delayTime
             (delay delayTime (digitalWrite LED_PIN LOW
               (delay delayTime (digitalWrite LED_PIN HIGH s))))
      else s)"
  by pat_completeness auto
termination
  by (relation "measure (\<lambda>(i, ntimes, delayTime, s). nat (ntimes - i))") auto

declare blinkLED_loop.simps [simp del]

definition blinkLED :: "int \<Rightarrow> int \<Rightarrow> state \<Rightarrow> state" where
  "blinkLED ntimes delayTime s = blinkLED_loop 0 ntimes delayTime s"

subsection \<open>\<open>sendToThingSpeak\<close>\<close>

definition telemetry_url :: "env \<Rightarrow> chaves \<Rightarrow> int \<Rightarrow> int \<Rightarrow> float \<Rightarrow> float \<Rightarrow> int \<Rightarrow> int \<Rightarrow> string" where
  "telemetry_url E K luz solo umidAr temp bomba agua =
     ''http://api.thingspeak.com/update?api_key='' @ WRITE_KEY K @
     ''&field1='' @ String_int luz @
     ''&field2='' @ String_int solo @
     ''&field3='' @ floatStr E umidAr @
     ''&field4='' @ floatStr E temp @
     ''&field5='' @ String_int bomba @
     ''&field6='' @ String_int agua"

definition sendToThingSpeak ::
    "env \<Rightarrow> chaves \<Rightarrow> int \<Rightarrow> int \<Rightarrow> float \<Rightarrow> float \<Rightarrow> int \<Rightarrow> int \<Rightarrow> state \<Rightarrow> state" where
  "sendToThingSpeak E K luz solo umidAr temp bomba agua s =
     (case WiFi_status E s of (connected, s1) \<Rightarrow>
        if \<not> connected
        then Serial_println (''Sem Wi-Fi, n'' @ [CHR 0xC3, CHR 0xA3] @ ''o enviando ao ThingSpeak.'') s1
        else
          (let url = telemetry_url E K luz solo umidAr temp bomba agua in
           case http_GET E (emit (HttpBegin url) s1) of (httpCode, s2) \<Rightarrow>
             emit HttpEnd
               (if httpCode > 0
                then Serial_println (''ThingSpeak atualizado! C'' @ [CHR 0xC3, CHR 0xB3] @ ''digo: ''
                                       @ String_int httpCode) s2
                else Serial_println ''Erro ao enviar ao ThingSpeak.'' s2)))"

subsection \<open>\<open>handleWateringLogic\<close>\<close>

text \<open>
  The chain of branches of \<open>handleWateringLogic\<close> (light-aware variant), returning the local
  \<open>bombaLigada\<close> with the state.
\<close>

definition handleWateringLogic_branches :: "int \<Rightarrow> bool \<Rightarrow> int \<Rightarrow> int \<Rightarrow> state \<Rightarrow> int \<times> state" where
  "handleWateringLogic_branches soil haAgua hour lightValue s =
     (let drySoil = soil > SOIL_MOISTURE_THRESHOLD;
          isNight = isNightHour hour;
          isDark = lightValue > LDR_DARK_THRESHOLD
      in
        if drySoil \<and> isNight \<and> \<not> haAgua then
          (0, digitalWrite RELE_PIN HIGH
                (blinkLED 20 LED_BLINK_SHORT
                  (Serial_println (''Encher reservat'' @ [CHR 0xC3, CHR 0xB3] @ ''rio!'') s)))
        else if drySoil \<and> isNight \<and> haAgua \<and> isDark then
          (1, digitalWrite LED_PIN LOW
                (digitalWrite RELE_PIN HIGH
                  (delay PUMP_ON_TIME_MS
                    (digitalWrite RELE_PIN LOW
                      (digitalWrite LED_PIN HIGH
                        (Serial_println
                           (''Hor'' @ [CHR 0xC3, CHR 0xA1] @ ''rio certo, baixa luminosidade ''
                             @ [CHR 0xE2, CHR 0x80, CHR 0x94] @ '' ligando a bomba!'') s))))))
        else if drySoil \<and> \<not> isDark then
          (0, digitalWrite RELE_PIN HIGH
                (blinkLED 5 LED_BLINK_LONG
                  (Serial_println
                     (''Solo seco, mas luminosidade est'' @ [CHR 0xC3, CHR 0xA1] @ '' alta ''
                       @ [CHR 0xE2, CHR 0x80, CHR 0x94] @ '' n'' @ [CHR 0xC3, CHR 0xA3]
                       @ ''o ligar a bomba.'') s)))
        else
          (0, digitalWrite LED_PIN LOW
                (digitalWrite RELE_PIN HIGH
                  (Serial_println
                     (''Planta em boas condi'' @ [CHR 0xC3, CHR 0xA7, CHR 0xC3, CHR 0xB5]
                       @ ''es.'') s))))"

text \<open>
  C++ leaves open the order in which the arguments of the call of \<open>sendToThingSpeak\<close> are
  evaluated. \<open>handleWateringLogic\<close> and \<open>handleWateringLogic_v2\<close> read them left to right
  (light in the second variant, then humidity, then temperature); the statements about them
  that name a tick of one of these reads are statements for this order. The definitions with
  suffix \<open>_rtl\<close>, after them, read right to left, as a compiler may. Reading right to left in
  an environment is reading left to right in the environment in which the answers of these
  reads are exchanged (\<open>argument_order\<close>), so what holds in every environment holds in either
  order, with the ticks of the reads exchanged.
\<close>

definition handleWateringLogic ::
    "env \<Rightarrow> chaves \<Rightarrow> int \<Rightarrow> bool \<Rightarrow> int \<Rightarrow> int \<Rightarrow> state \<Rightarrow> state" where
  "handleWateringLogic E K soil haAgua hour lightValue s =
     (case handleWateringLogic_branches soil haAgua hour lightValue s of (bombaLigada, s1) \<Rightarrow>
      case dht_readHumidity E s1 of (umid, s2) \<Rightarrow>
      case dht_readTemperature E s2 of (temp, s3) \<Rightarrow>
        sendToThingSpeak E K lightValue soil umid temp bombaLigada (bool_int haAgua) s3)"

text \<open>The same for the second variant, which has no light input to the decision.\<close>

definition handleWateringLogic_branches_v2 :: "int \<Rightarrow> bool \<Rightarrow> int \<Rightarrow> state \<Rightarrow> int \<times> state" where
  "handleWateringLogic_branches_v2 soil haAgua hour s =
     (let drySoil = soil > SOIL_MOISTURE_THRESHOLD;
          isNight = isNightHour hour
      in
        if drySoil \<and> isNight \<and> \<not> haAgua then
          (0, digitalWrite RELE_PIN HIGH
                (blinkLED 20 LED_BLINK_SHORT
                  (Serial_println (''Encher reservat'' @ [CHR 0xC3, CHR 0xB3] @ ''rio!'') s)))
        else if drySoil \<and> isNight \<and> haAgua then
          (1, digitalWrite LED_PIN LOW
                (digitalWrite RELE_PIN HIGH
                  (delay PUMP_ON_TIME_MS
                    (digitalWrite RELE_PIN LOW
                      (digitalWrite LED_PIN HIGH
                        (Serial_println
                           (''Hor'' @ [CHR 0xC3, CHR 0xA1] @ ''rio certo, ligando a bomba!'') s))))))
        else if drySoil then
          (0, digitalWrite RELE_PIN HIGH
                (blinkLED 5 LED_BLINK_LONG
                  (Serial_println
                     (''Planta precisa de '' @ [CHR 0xC3, CHR 0xA1] @ ''gua!'') s)))
        else
          (0, digitalWrite LED_PIN LOW
                (digitalWrite RELE_PIN HIGH
                  (Serial_println
                     (''Planta em boas condi'' @ [CHR 0xC3, CHR 0xA7, CHR 0xC3, CHR 0xB5]
                       @ ''es.'') s))))"

definition handleWateringLogic_v2 ::
    "env \<Rightarrow> chaves \<Rightarrow> int \<Rightarrow> bool \<Rightarrow> int \<Rightarrow> state \<Rightarrow> state" where
  "handleWateringLogic_v2 E K soil haAgua hour s =
     (case handleWateringLogic_branches_v2 soil haAgua hour s of (bombaLigada, s1) \<Rightarrow>
      case digitalRead E LDR_PIN_v2 s1 of (luz, s2) \<Rightarrow>
      case dht_readHumidity E s2 of (umid, s3) \<Rightarrow>
      case dht_readTemperature E s3 of (temp, s4) \<Rightarrow>
        sendToThingSpeak E K (level_int luz) soil umid temp bombaLigada (bool_int haAgua) s4)"

text \<open>The same two functions with the arguments of the call read right to left.\<close>

definition handleWateringLogic_rtl ::
    "env \<Rightarrow> chaves \<Rightarrow> int \<Rightarrow> bool \<Rightarrow> int \<Rightarrow> int \<Rightarrow> state \<Rightarrow> state" where
  "handleWateringLogic_rtl E K soil haAgua hour lightValue s =
     (case handleWateringLogic_branches soil haAgua hour lightValue s of (bombaLigada, s1) \<Rightarrow>
      case dht_readTemperature E s1 of (temp, s2) \<Rightarrow>
      case dht_readHumidity E s2 of (umid, s3) \<Rightarrow>
        sendToThingSpeak E K lightValue soil umid temp bombaLigada (bool_int haAgua) s3)"

definition handleWateringLogic_v2_rtl ::
    "env \<Rightarrow> chaves \<Rightarrow> int \<Rightarrow> bool \<Rightarrow> int \<Rightarrow> state \<Rightarrow> state" where
  "handleWateringLogic_v2_rtl E K soil haAgua hour s =
     (case handleWateringLogic_branches_v2 soil haAgua hour s of (bombaLigada, s1) \<Rightarrow>
      case dht_readTemperature E s1 of (temp, s2) \<Rightarrow>
      case dht_readHumidity E s2 of (umid, s3) \<Rightarrow>
      case digitalRead E LDR_PIN_v2 s3 of (luz, s4) \<Rightarrow>
        sendToThingSpeak E K (level_int luz) soil umid temp bombaLigada (bool_int haAgua) s4)"

text \<open>
  The environment in which the answers given to the reads of \<open>handleWateringLogic\<close> entered
  at tick \<open>t\<close> are exchanged: the first and the last of them, for each variant.
\<close>

definition reads_exchanged :: "env \<Rightarrow> nat \<Rightarrow> env" where
  "reads_exchanged E t =
     E\<lparr>dhtHumidity := (dhtHumidity E)(t := dhtHumidity E (Suc t)),
       dhtTemperature := (dhtTemperature E)(Suc t := dhtTemperature E t)\<rparr>"

definition reads_exchanged_v2 :: "env \<Rightarrow> nat \<Rightarrow> env" where
  "reads_exchanged_v2 E t =
     E\<lparr>digitalIn := (digitalIn E)(LDR_PIN_v2 := (digitalIn E LDR_PIN_v2)
                       (t := digitalIn E LDR_PIN_v2 (Suc (Suc t)))),
       dhtTemperature := (dhtTemperature E)(Suc (Suc t) := dhtTemperature E t)\<rparr>"

subsection \<open>\<open>connectWiFi\<close>\<close>

text \<open>
  The polling loop of \<open>connectWiFi\<close>: \<open>WiFi.status()\<close> is read before \<open>attempts\<close> is compared,
  at every evaluation of the condition.
\<close>

function WiFi_poll :: "env \<Rightarrow> int \<Rightarrow> state \<Rightarrow> state" where
  "WiFi_poll E attempts s =
     (if \<not> fst (WiFi_status E s) \<and> attempts < WIFI_MAX_ATTEMPTS
      then WiFi_poll E (attempts + 1) (Serial_print ''.'' (delay 500 (snd (WiFi_status E s))))
      else snd (WiFi_status E s))"
  by pat_completeness auto
termination
  by (relation "measure (\<lambda>(E, attempts, s). nat (WIFI_MAX_ATTEMPTS - attempts))") auto

declare WiFi_poll.simps [simp del]

text \<open>
  The \<open>for\<close> loop over the candidates. The flag of the result says whether the function has
  returned from inside the loop (line 142), so that the code after the loop is skipped.
\<close>

fun connectWiFi_loop :: "env \<Rightarrow> (string \<times> string) list \<Rightarrow> state \<Rightarrow> bool \<times> state" where
  "connectWiFi_loop E [] s = (False, s)"
| "connectWiFi_loop E ((ssid, senha) # rest) s =
     (let s1 = Serial_println ssid (Serial_print ''Tentando conectar em: '' s);
          s2 = WiFi_poll E 0 (emit (WiFiBegin ssid senha) s1)
      in case WiFi_status E s2 of (connected, s3) \<Rightarrow>
           if connected
           then (True,
                 delay 2000
                   (emit (ConfigTime GMT_OFFSET_SEC DAYLIGHT_OFFSET_SEC NTP_SERVER)
                     ((Serial_println ssid
                        (Serial_print ([CHR 0x0A] @ ''Conectado com sucesso em '') s3))
                      \<lparr>wifiConnected := True\<rparr>)))
           else connectWiFi_loop E rest
                  (Serial_println ([CHR 0x0A] @ ''Falha nesta rede, tentando pr''
                     @ [CHR 0xC3, CHR 0xB3] @ ''xima...'' @ [CHR 0x0A]) s3))"

definition connectWiFi :: "env \<Rightarrow> chaves \<Rightarrow> state \<Rightarrow> state" where
  "connectWiFi E K s =
     (let s0 = (Serial_println (''Iniciando tentativa de conex'' @ [CHR 0xC3, CHR 0xA3]
                  @ ''o em redes salvas...'') s)\<lparr>wifiConnected := False\<rparr>
      in case connectWiFi_loop E (WIFI_LIST K) s0 of (returned, s1) \<Rightarrow>
           if returned then s1
           else (Serial_println (''Nenhuma das redes dispon'' @ [CHR 0xC3, CHR 0xAD]
                   @ ''veis funcionou. Continuando offline...'') s1)\<lparr>wifiConnected := False\<rparr>)"

definition connectWiFi_v2 :: "env \<Rightarrow> chaves \<Rightarrow> state \<Rightarrow> state" where
  "connectWiFi_v2 E K s =
     (let s1 = WiFi_poll E 0
                 (emit (WiFiBegin (WIFI_NAME K) (WIFI_SENHA K))
                   (Serial_print ''Conectando ao Wi-Fi...'' s))
      in case WiFi_status E s1 of (connected, s2) \<Rightarrow>
           if connected
           then delay 2000
                  (emit (ConfigTime GMT_OFFSET_SEC DAYLIGHT_OFFSET_SEC NTP_SERVER)
                    ((Serial_println ([CHR 0x0A] @ ''Wi-Fi conectado!'') s2)
                     \<lparr>wifiConnected := True\<rparr>))
           else (Serial_println ([CHR 0x0A]
                   @ ''Falha ao conectar ao Wi-Fi. Continuando offline...'') s2)
                \<lparr>wifiConnected := False\<rparr>)"

subsection \<open>\<open>printSensorData\<close>\<close>

definition printSensorData :: "int \<Rightarrow> int \<Rightarrow> float \<Rightarrow> float \<Rightarrow> bool \<Rightarrow> state \<Rightarrow> state" where
  "printSensorData lightValue soil humidity temperature haAgua s =
     Serial_println ([CHR 0xC2, CHR 0xB0] @ ''C'')
       (emit (SerialPrintFloat temperature)
         (Serial_print ''Temperatura: ''
           (Serial_println ''%''
             (emit (SerialPrintFloat humidity)
               (Serial_print ''Umidade do Ar: ''
                 (Serial_println (if haAgua then ''OK'' else ''BAIXA'')
                   (Serial_print ([CHR 0xC3, CHR 0x81] @ ''gua no reservat''
                                   @ [CHR 0xC3, CHR 0xB3] @ ''rio: '')
                     (Serial_println (String_int soil)
                       (Serial_print ''Umidade do Solo: ''
                         (Serial_println (String_int lightValue)
                           (Serial_print ''Luminosidade: ''
                             (Serial_println
                                ''-------------------------------------------------''
                                s))))))))))))"

definition printSensorData_v2 :: "int \<Rightarrow> int \<Rightarrow> float \<Rightarrow> float \<Rightarrow> bool \<Rightarrow> state \<Rightarrow> state" where
  "printSensorData_v2 lightState soil humidity temperature haAgua s =
     Serial_println ([CHR 0xC2, CHR 0xB0] @ ''C'')
       (emit (SerialPrintFloat temperature)
         (Serial_print ''Temperatura: ''
           (Serial_println ''%''
             (emit (SerialPrintFloat humidity)
               (Serial_print ''Umidade do Ar: ''
                 (Serial_println (if haAgua then ''OK'' else ''BAIXA'')
                   (Serial_print ([CHR 0xC3, CHR 0x81] @ ''gua no reservat''
                                   @ [CHR 0xC3, CHR 0xB3] @ ''rio: '')
                     (Serial_println (String_int soil)
                       (Serial_print ''Umidade do Solo: ''
                         (Serial_println (if lightState = level_int LOW then ''Alta'' else ''Baixa'')
                           (Serial_print ''Luminosidade (LDR): ''
                             (Serial_println
                                ''-------------------------------------------------''
                                s))))))))))))"

subsection \<open>\<open>loop\<close>\<close>

text \<open>
  One cycle of \<open>loop\<close>, in the parts it is written in: the reconnection check, the
  resynchronisation of the clock, the sensor reads (the cycle's snapshot), and the rest.
\<close>

definition loop_reconnect :: "env \<Rightarrow> chaves \<Rightarrow> state \<Rightarrow> state" where
  "loop_reconnect E K s =
     (case WiFi_status E s of (connected, s1) \<Rightarrow>
        if \<not> connected \<and> wifiConnected s1
        then connectWiFi E K
               ((Serial_println ''Wi-Fi desconectado! Tentando reconectar...'' s1)
                \<lparr>wifiConnected := False\<rparr>)
        else s1)"

definition loop_reconnect_v2 :: "env \<Rightarrow> chaves \<Rightarrow> state \<Rightarrow> state" where
  "loop_reconnect_v2 E K s =
     (case WiFi_status E s of (connected, s1) \<Rightarrow>
        if \<not> connected \<and> wifiConnected s1
        then connectWiFi_v2 E K
               ((Serial_println ''Wi-Fi desconectado! Tentando reconectar...'' s1)
                \<lparr>wifiConnected := False\<rparr>)
        else s1)"

definition loop_resync :: "env \<Rightarrow> state \<Rightarrow> state" where
  "loop_resync E s = (if wifiConnected s \<and> \<not> timeValid s then snd (updateLocalTime E s) else s)"

record SensorSnapshot =
  snap_light :: int
  snap_soil :: int
  snap_humidity :: float
  snap_temperature :: float
  snap_haAgua :: bool

definition readSensors :: "env \<Rightarrow> state \<Rightarrow> SensorSnapshot \<times> state" where
  "readSensors E s =
     (case analogRead E LDR_PIN s of (l, s1) \<Rightarrow>
      case analogRead E SOIL_PIN s1 of (so, s2) \<Rightarrow>
      case dht_readHumidity E s2 of (h, s3) \<Rightarrow>
      case dht_readTemperature E s3 of (t, s4) \<Rightarrow>
      case digitalRead E BOIA_PIN s4 of (boia, s5) \<Rightarrow>
        (\<lparr>snap_light = l, snap_soil = so, snap_humidity = h, snap_temperature = t,
          snap_haAgua = (boia = LOW)\<rparr>, s5))"

definition readSensors_v2 :: "env \<Rightarrow> state \<Rightarrow> SensorSnapshot \<times> state" where
  "readSensors_v2 E s =
     (case digitalRead E LDR_PIN_v2 s of (l, s1) \<Rightarrow>
      case analogRead E SOIL_PIN s1 of (so, s2) \<Rightarrow>
      case dht_readHumidity E s2 of (h, s3) \<Rightarrow>
      case dht_readTemperature E s3 of (t, s4) \<Rightarrow>
      case digitalRead E BOIA_PIN s4 of (boia, s5) \<Rightarrow>
        (\<lparr>snap_light = level_int l, snap_soil = so, snap_humidity = h,
          snap_temperature = t, snap_haAgua = (boia = LOW)\<rparr>, s5))"

text \<open>From \<open>printSensorData\<close> to the final \<open>delay\<close>, given the snapshot.\<close>

definition loop_act :: "env \<Rightarrow> chaves \<Rightarrow> SensorSnapshot \<Rightarrow> state \<Rightarrow> state" where
  "loop_act E K snap s =
     (let s1 = printSensorData (snap_light snap) (snap_soil snap) (snap_humidity snap)
                 (snap_temperature snap) (snap_haAgua snap) s
      in case getLocalTime E s1 of ((ok, hour), s2) \<Rightarrow>
           delay LOOP_DELAY_MS
             (snd (updateLocalTime E
                (handleWateringLogic E K (snap_soil snap) (snap_haAgua snap) hour
                   (snap_light snap) s2))))"

definition loop_act_v2 :: "env \<Rightarrow> chaves \<Rightarrow> SensorSnapshot \<Rightarrow> state \<Rightarrow> state" where
  "loop_act_v2 E K snap s =
     (let s1 = printSensorData_v2 (snap_light snap) (snap_soil snap)
                 (snap_humidity snap) (snap_temperature snap) (snap_haAgua snap) s
      in case getLocalTime E s1 of ((ok, hour), s2) \<Rightarrow>
           delay LOOP_DELAY_MS
             (snd (updateLocalTime E
                (handleWateringLogic_v2 E K (snap_soil snap) (snap_haAgua snap) hour s2))))"

definition loop :: "env \<Rightarrow> chaves \<Rightarrow> state \<Rightarrow> state" where
  "loop E K s =
     (case readSensors E (loop_resync E (loop_reconnect E K s)) of (snap, s1) \<Rightarrow>
        loop_act E K snap s1)"

definition loop_v2 :: "env \<Rightarrow> chaves \<Rightarrow> state \<Rightarrow> state" where
  "loop_v2 E K s =
     (case readSensors_v2 E (loop_resync E (loop_reconnect_v2 E K s)) of (snap, s1) \<Rightarrow>
        loop_act_v2 E K snap s1)"

subsection \<open>Observations on traces\<close>

text \<open>What one round of the loop of \<open>blinkLED\<close> emits.\<close>

definition blink_cycle :: "int \<Rightarrow> event list" where
  "blink_cycle d = [DigitalWrite LED_PIN HIGH, Delay d, DigitalWrite LED_PIN LOW, Delay d]"

text \<open>
  The level of the relay pin after a list of events, from the level before it; the relay is
  active-low, so the pump runs while the level is \<open>LOW\<close>.
\<close>

fun relay_step :: "level \<Rightarrow> event \<Rightarrow> level" where
  "relay_step l (DigitalWrite p v) = (if p = RELE_PIN then v else l)"
| "relay_step l _ = l"

definition relay_after :: "level \<Rightarrow> event list \<Rightarrow> level" where
  "relay_after l evs = foldl relay_step l evs"

text \<open>The events that happen while the relay pin is, and stays, \<open>LOW\<close>.\<close>

fun while_pump_on :: "level \<Rightarrow> event list \<Rightarrow> event list" where
  "while_pump_on l [] = []"
| "while_pump_on l (e # es) =
     (if l = LOW \<and> relay_step l e = LOW then [e] else []) @ while_pump_on (relay_step l e) es"

text \<open>The guard of the branch that energizes the pump, in each variant.\<close>

definition pump_branch :: "int \<Rightarrow> bool \<Rightarrow> int \<Rightarrow> int \<Rightarrow> bool" where
  "pump_branch soil haAgua hour lightValue \<longleftrightarrow>
     soil > 1200 \<and> isNightHour hour \<and> haAgua \<and> lightValue > 1500"

definition pump_branch_v2 :: "int \<Rightarrow> bool \<Rightarrow> int \<Rightarrow> bool" where
  "pump_branch_v2 soil haAgua hour \<longleftrightarrow> soil > 1200 \<and> isNightHour hour \<and> haAgua"

text \<open>The two log lines of \<open>sendToThingSpeak\<close> and the events of one call, written out.\<close>

definition http_log :: "int \<Rightarrow> string" where
  "http_log code =
     (if code > 0 then ''ThingSpeak atualizado! C'' @ [CHR 0xC3, CHR 0xB3] @ ''digo: '' @ String_int code
      else ''Erro ao enviar ao ThingSpeak.'')"

definition no_wifi_log :: string where
  "no_wifi_log = ''Sem Wi-Fi, n'' @ [CHR 0xC3, CHR 0xA3] @ ''o enviando ao ThingSpeak.''"

definition send_events :: "env \<Rightarrow> chaves \<Rightarrow> int \<Rightarrow> int \<Rightarrow> float \<Rightarrow> float \<Rightarrow> int \<Rightarrow> int \<Rightarrow> nat \<Rightarrow> event list" where
  "send_events E K luz solo umidAr temp bomba agua t =
     (if WiFi_connected E t
      then [HttpBegin (telemetry_url E K luz solo umidAr temp bomba agua), HttpGET,
            SerialPrintln (http_log (httpAnswer E (Suc t))), HttpEnd]
      else [SerialPrintln no_wifi_log])"

text \<open>The log line of the last branch of \<open>handleWateringLogic\<close>.\<close>

definition good_log :: string where
  "good_log = ''Planta em boas condi'' @ [CHR 0xC3, CHR 0xA7, CHR 0xC3, CHR 0xB5] @ ''es.''"

subsection \<open>Concrete inputs\<close>

text \<open>
  An environment in which the network is up, the clock says 20 h, the LDR reads 2000 and the
  soil 1500, the float switch is closed, and the DHT answers 50 % for the reads before the
  fourth tick and 60 % from then on (the floats are the bit patterns of 50.0, 60.0 and 25.0).
\<close>

definition env0 :: env where
  "env0 = \<lparr>WiFi_connected = (\<lambda>t. True), localTime = (\<lambda>t. (True, 20)),
            analogIn = (\<lambda>p t. if p = LDR_PIN then 2000 else 1500),
            digitalIn = (\<lambda>p t. LOW),
            dhtHumidity = (\<lambda>t. if t < 4 then 0x42480000 else 0x42700000),
            dhtTemperature = (\<lambda>t. 0x41C80000),
            httpAnswer = (\<lambda>t. 200),
            floatStr = (\<lambda>w. if w = 0x42480000 then ''50.00''
                           else if w = 0x42700000 then ''60.00'' else ''25.00'')\<rparr>"

definition chaves0 :: chaves where
  "chaves0 = \<lparr>WRITE_KEY = ''KEY'', WIFI_LIST = [(''casa'', ''1234''), (''lab'', ''abcd'')],
               WIFI_NAME = ''casa'', WIFI_SENHA = ''1234''\<rparr>"

definition state0 :: state where
  "state0 = \<lparr>wifiConnected = False, timeValid = False, tick = 0, trace = []\<rparr>"

text \<open>The same environment with the network down, and a state whose flag says connected.\<close>

definition env_down :: env where
  "env_down = env0\<lparr>WiFi_connected := (\<lambda>t. False)\<rparr>"

definition state_up :: state where
  "state_up = state0\<lparr>wifiConnected := True\<rparr>"

subsection \<open>Reading a request\<close>

text \<open>
  The events of the HTTP client, and a reader of URLs: the part before the first \<open>?\<close>, and
  the query split at every \<open>&\<close>, each piece split at its first \<open>=\<close>.
\<close>

fun is_http :: "event \<Rightarrow> bool" where
  "is_http (HttpBegin u) = True"
| "is_http HttpGET = True"
| "is_http HttpEnd = True"
| "is_http _ = False"

definition before :: "char \<Rightarrow> string \<Rightarrow> string" where
  "before c x = takeWhile (\<lambda>y. y \<noteq> c) x"

definition after :: "char \<Rightarrow> string \<Rightarrow> string" where
  "after c x = drop 1 (dropWhile (\<lambda>y. y \<noteq> c) x)"

fun split_on :: "char \<Rightarrow> string \<Rightarrow> string list" where
  "split_on c [] = [[]]"
| "split_on c (x # xs) =
     (if x = c then [] # split_on c xs
      else (case split_on c xs of [] \<Rightarrow> [[x]] | w # ws \<Rightarrow> (x # w) # ws))"

definition url_base :: "string \<Rightarrow> string" where
  "url_base url = before CHR ''?'' url"

definition query_params :: "string \<Rightarrow> (string \<times> string) list" where
  "query_params url =
     map (\<lambda>kv. (before CHR ''='' kv, after CHR ''='' kv)) (split_on CHR ''&'' (after CHR ''?'' url))"

fun http_urls :: "event list \<Rightarrow> string list" where
  "http_urls [] = []"
| "http_urls (HttpBegin u # es) = u # http_urls es"
| "http_urls (e # es) = http_urls es"

subsection \<open>Reading an association run\<close>

text \<open>The credentials with which an association was begun, in the order of the trace.\<close>

fun begins :: "event list \<Rightarrow> (string \<times> string) list" where
  "begins [] = []"
| "begins (WiFiBegin ssid senha # es) = (ssid, senha) # begins es"
| "begins (e # es) = begins es"

text \<open>
  No association is followed by more than \<open>WIFI_MAX_ATTEMPTS\<close> polling delays of 500 ms
  before the next association or the end; \<open>c\<close> counts the delays since the last one.
\<close>

fun polls_ok :: "nat \<Rightarrow> event list \<Rightarrow> bool" where
  "polls_ok c [] = True"
| "polls_ok c (WiFiBegin ssid senha # es) = polls_ok 0 es"
| "polls_ok c (Delay d # es) =
     (if d = 500 then c < nat WIFI_MAX_ATTEMPTS \<and> polls_ok (Suc c) es else polls_ok c es)"
| "polls_ok c (e # es) = polls_ok c es"

text \<open>The configuration of the time source, and the events that make it.\<close>

fun is_ConfigTime :: "event \<Rightarrow> bool" where
  "is_ConfigTime (ConfigTime a b c) = True"
| "is_ConfigTime _ = False"

text \<open>One round of the polling loop, and the two log lines of the candidate loop.\<close>

definition poll_round :: "event list" where
  "poll_round = [Delay 500, SerialPrint ''.'']"

text \<open>An environment in which the network comes up at the twentieth status read.\<close>

definition env_second :: env where
  "env_second = env0\<lparr>WiFi_connected := (\<lambda>t. 20 \<le> t)\<rparr>"

definition connect_ok_log :: string where
  "connect_ok_log = [CHR 0x0A] @ ''Conectado com sucesso em ''"

definition connect_fail_log :: string where
  "connect_fail_log = [CHR 0x0A] @ ''Falha nesta rede, tentando pr'' @ [CHR 0xC3, CHR 0xB3]
                        @ ''xima...'' @ [CHR 0x0A]"

definition time_config :: "event list" where
  "time_config = [ConfigTime GMT_OFFSET_SEC DAYLIGHT_OFFSET_SEC NTP_SERVER, Delay 2000]"

text \<open>What one call of \<open>updateLocalTime\<close> logs, from the answer of the clock.\<close>

fun time_log :: "bool \<times> int \<Rightarrow> event list" where
  "time_log (ok, hour) =
     (if ok then [SerialPrint ''Hora atual: '', SerialPrintlnTime hour ''%H:%M:%S'']
      else [SerialPrintln ''Falha ao obter hora.''])"

text \<open>An environment in which the network is up at the first status read only.\<close>

definition env_drop :: env where
  "env_drop = env0\<lparr>WiFi_connected := (\<lambda>t. t = 0)\<rparr>"

subsection \<open>The association run, from the answers of the network\<close>

text \<open>
  The number of rounds of the polling loop that starts at tick \<open>t\<close> with \<open>m\<close> attempts left:
  it polls until the status read answers connected or the attempts are used up.
\<close>

fun rounds :: "env \<Rightarrow> nat \<Rightarrow> nat \<Rightarrow> nat" where
  "rounds E t 0 = 0"
| "rounds E t (Suc m) = (if WiFi_connected E t then 0 else Suc (rounds E (Suc t) m))"

text \<open>
  One attempt at a candidate: the polling rounds made, the answer of the status check after
  them, and the tick after that check. \<open>outcomes E t cs\<close> are the attempts at the candidates
  \<open>cs\<close> when each is begun at the tick where the one before it ended, the first at \<open>t\<close>;
  whether an attempt is made at all is not said here.
\<close>

record attempt =
  att_polls :: nat
  att_ok :: bool
  att_end :: nat

fun outcomes :: "env \<Rightarrow> nat \<Rightarrow> (string \<times> string) list \<Rightarrow> attempt list" where
  "outcomes E t [] = []"
| "outcomes E t (c # cs) =
     (let n = rounds E t (nat WIFI_MAX_ATTEMPTS); chk = t + n + 1
      in \<lparr>att_polls = n, att_ok = WiFi_connected E chk, att_end = Suc chk\<rparr>
           # outcomes E (Suc chk) cs)"

text \<open>The number of attempts that fail before the first that succeeds.\<close>

definition first_success :: "attempt list \<Rightarrow> nat" where
  "first_success os = length (takeWhile (\<lambda>a. \<not> att_ok a) os)"

text \<open>The events of one attempt, the tick at which a run of attempts ends, and two log lines.\<close>

fun attempt_events :: "(string \<times> string) \<times> attempt \<Rightarrow> event list" where
  "attempt_events ((ssid, senha), a) =
     [SerialPrint ''Tentando conectar em: '', SerialPrintln ssid, WiFiBegin ssid senha]
     @ concat (replicate (att_polls a) poll_round)
     @ (if att_ok a then [SerialPrint connect_ok_log, SerialPrintln ssid] @ time_config
        else [SerialPrintln connect_fail_log])"

definition end_tick :: "nat \<Rightarrow> attempt list \<Rightarrow> nat" where
  "end_tick t as = (if as = [] then t else att_end (last as))"

definition connect_start_log :: string where
  "connect_start_log = ''Iniciando tentativa de conex'' @ [CHR 0xC3, CHR 0xA3]
                         @ ''o em redes salvas...''"

definition connect_none_log :: string where
  "connect_none_log = ''Nenhuma das redes dispon'' @ [CHR 0xC3, CHR 0xAD]
                        @ ''veis funcionou. Continuando offline...''"

section \<open>Basic facts\<close>

lemma emit_simps [simp]:
  "trace (emit e s) = trace s @ [e]"
  "tick (emit e s) = tick s"
  "wifiConnected (emit e s) = wifiConnected s"
  "timeValid (emit e s) = timeValid s"
  by (simp_all add: emit_def)

lemmas prim_defs = digitalWrite_def delay_def Serial_print_def Serial_println_def

lemmas read_defs = WiFi_status_def getLocalTime_def analogRead_def digitalRead_def
  dht_readHumidity_def dht_readTemperature_def http_GET_def

lemma emitted_append [simp]: "trace s' = trace s @ evs \<Longrightarrow> emitted s s' = evs"
  by (simp add: emitted_def)

lemma blinkLED_loop_trace:
  "trace (blinkLED_loop i n d s) = trace s @ concat (replicate (nat (n - i)) (blink_cycle d))"
proof (induction i n d s rule: blinkLED_loop.induct)
  case (1 i n d s)
  show ?case
  proof (cases "i < n")
    case True
    then have "nat (n - i) = Suc (nat (n - (i + 1)))" by simp
    with True 1 show ?thesis
      by (simp add: prim_defs blink_cycle_def blinkLED_loop.simps [of i])
  next
    case False
    then show ?thesis by (simp add: blinkLED_loop.simps [of i])
  qed
qed

lemma blinkLED_loop_rest:
  "tick (blinkLED_loop i n d s) = tick s \<and> wifiConnected (blinkLED_loop i n d s) = wifiConnected s
   \<and> timeValid (blinkLED_loop i n d s) = timeValid s"
proof (induction i n d s rule: blinkLED_loop.induct)
  case (1 i n d s)
  show ?case
  proof (cases "i < n")
    case True
    with 1 show ?thesis
      by (simp add: prim_defs blinkLED_loop.simps [of i])
  next
    case False
    then show ?thesis by (simp add: blinkLED_loop.simps [of i])
  qed
qed

lemma blinkLED_simps [simp]:
  "trace (blinkLED n d s) = trace s @ concat (replicate (nat n) (blink_cycle d))"
  "tick (blinkLED n d s) = tick s"
  "wifiConnected (blinkLED n d s) = wifiConnected s"
  "timeValid (blinkLED n d s) = timeValid s"
  by (simp_all add: blinkLED_def blinkLED_loop_trace blinkLED_loop_rest)

lemma sendToThingSpeak_simps [simp]:
  "trace (sendToThingSpeak E K luz solo umidAr temp bomba agua s) =
     trace s @ send_events E K luz solo umidAr temp bomba agua (tick s)"
  "wifiConnected (sendToThingSpeak E K luz solo umidAr temp bomba agua s) = wifiConnected s"
  "timeValid (sendToThingSpeak E K luz solo umidAr temp bomba agua s) = timeValid s"
  "tick (sendToThingSpeak E K luz solo umidAr temp bomba agua s) =
     (if WiFi_connected E (tick s) then tick s + 2 else tick s + 1)"
  by (simp_all add: sendToThingSpeak_def send_events_def http_log_def no_wifi_log_def
        read_defs prim_defs Let_def)

lemma relay_after_append [simp]:
  "relay_after l (xs @ ys) = relay_after (relay_after l xs) ys"
  by (simp add: relay_after_def)

lemma relay_after_Nil [simp]: "relay_after l [] = l"
  by (simp add: relay_after_def)

lemma relay_after_Cons [simp]: "relay_after l (e # es) = relay_after (relay_step l e) es"
  by (simp add: relay_after_def)

lemma pins_distinct [simp]: "LED_PIN \<noteq> RELE_PIN" "RELE_PIN \<noteq> LED_PIN"
  by (simp_all add: LED_PIN_def RELE_PIN_def)

lemma relay_after_blink [simp]:
  "relay_after l (concat (replicate n (blink_cycle d))) = l"
  by (induction n) (simp_all add: blink_cycle_def)

lemma relay_after_send [simp]:
  "relay_after l (send_events E K luz solo umidAr temp bomba agua t) = l"
  by (simp add: send_events_def)

lemma branches_simps:
  "fst (handleWateringLogic_branches soil haAgua hour lightValue s) =
     (if pump_branch soil haAgua hour lightValue then 1 else 0)"
  "tick (snd (handleWateringLogic_branches soil haAgua hour lightValue s)) = tick s"
  "wifiConnected (snd (handleWateringLogic_branches soil haAgua hour lightValue s)) = wifiConnected s"
  "timeValid (snd (handleWateringLogic_branches soil haAgua hour lightValue s)) = timeValid s"
  by (simp_all add: handleWateringLogic_branches_def pump_branch_def Let_def prim_defs
       SOIL_MOISTURE_THRESHOLD_def LDR_DARK_THRESHOLD_def)

lemma set_blink_cycle [simp]: "DigitalWrite RELE_PIN l \<notin> set (blink_cycle d)"
  by (simp add: blink_cycle_def)

lemma set_blink [simp]:
  "DigitalWrite RELE_PIN l \<notin> set (concat (replicate n (blink_cycle d)))"
  by (induction n) simp_all

lemma set_send [simp]:
  "DigitalWrite p l \<notin> set (send_events E K luz solo umidAr temp bomba agua t)"
  by (simp add: send_events_def)

lemma while_pump_on_append:
  "while_pump_on l (xs @ ys) = while_pump_on l xs @ while_pump_on (relay_after l xs) ys"
  by (induction xs arbitrary: l) simp_all

lemma while_pump_on_blink [simp]:
  "while_pump_on HIGH (concat (replicate n (blink_cycle d))) = []"
  by (induction n) (simp_all add: blink_cycle_def while_pump_on_append)

lemma while_pump_on_send [simp]:
  "while_pump_on HIGH (send_events E K luz solo umidAr temp bomba agua t) = []"
  by (simp add: send_events_def)

lemma branches_v2_simps:
  "fst (handleWateringLogic_branches_v2 soil haAgua hour s) =
     (if pump_branch_v2 soil haAgua hour then 1 else 0)"
  "tick (snd (handleWateringLogic_branches_v2 soil haAgua hour s)) = tick s"
  "wifiConnected (snd (handleWateringLogic_branches_v2 soil haAgua hour s)) = wifiConnected s"
  "timeValid (snd (handleWateringLogic_branches_v2 soil haAgua hour s)) = timeValid s"
  by (simp_all add: handleWateringLogic_branches_v2_def pump_branch_v2_def Let_def prim_defs
       SOIL_MOISTURE_THRESHOLD_def)

lemma hWL_eq:
  "handleWateringLogic E K soil haAgua hour lightValue s =
     sendToThingSpeak E K lightValue soil (dhtHumidity E (tick s)) (dhtTemperature E (Suc (tick s)))
       (if pump_branch soil haAgua hour lightValue then 1 else 0) (bool_int haAgua)
       ((snd (handleWateringLogic_branches soil haAgua hour lightValue s))\<lparr>tick := tick s + 2\<rparr>)"
proof -
  obtain b s1 where br: "handleWateringLogic_branches soil haAgua hour lightValue s = (b, s1)"
    by (cases "handleWateringLogic_branches soil haAgua hour lightValue s")
  have "b = (if pump_branch soil haAgua hour lightValue then 1 else 0)" "tick s1 = tick s"
    using branches_simps(1,2) [of soil haAgua hour lightValue s] br by simp_all
  then show ?thesis
    by (simp add: handleWateringLogic_def br read_defs)
qed

lemma hWL_v2_eq:
  "handleWateringLogic_v2 E K soil haAgua hour s =
     sendToThingSpeak E K (level_int (digitalIn E LDR_PIN_v2 (tick s))) soil
       (dhtHumidity E (Suc (tick s))) (dhtTemperature E (Suc (Suc (tick s))))
       (if pump_branch_v2 soil haAgua hour then 1 else 0) (bool_int haAgua)
       ((snd (handleWateringLogic_branches_v2 soil haAgua hour s))
          \<lparr>tick := Suc (Suc (Suc (tick s)))\<rparr>)"
proof -
  obtain b s1 where br: "handleWateringLogic_branches_v2 soil haAgua hour s = (b, s1)"
    by (cases "handleWateringLogic_branches_v2 soil haAgua hour s")
  have "b = (if pump_branch_v2 soil haAgua hour then 1 else 0)" "tick s1 = tick s"
    using branches_v2_simps(1,2) [of soil haAgua hour s] br by simp_all
  then show ?thesis
    by (simp add: handleWateringLogic_v2_def br read_defs)
qed

lemma branches_wet:
  assumes "soil \<le> SOIL_MOISTURE_THRESHOLD"
  shows "trace (snd (handleWateringLogic_branches soil haAgua hour lightValue s)) =
        trace s @ [SerialPrintln good_log, DigitalWrite RELE_PIN HIGH, DigitalWrite LED_PIN LOW]"
    and "trace (snd (handleWateringLogic_branches_v2 soil haAgua hour s)) =
        trace s @ [SerialPrintln good_log, DigitalWrite RELE_PIN HIGH, DigitalWrite LED_PIN LOW]"
  using assms
  by (simp_all add: handleWateringLogic_branches_def handleWateringLogic_branches_v2_def
        Let_def prim_defs good_log_def)

lemma branches_events:
  "\<exists>evs. trace (snd (handleWateringLogic_branches soil haAgua hour lightValue s)) = trace s @ evs
     \<and> (\<forall>l. relay_after l evs = HIGH)
     \<and> while_pump_on HIGH evs =
         (if pump_branch soil haAgua hour lightValue then [Delay PUMP_ON_TIME_MS] else [])
     \<and> (DigitalWrite RELE_PIN LOW \<in> set evs \<longleftrightarrow> pump_branch soil haAgua hour lightValue)"
  by (simp add: handleWateringLogic_branches_def Let_def prim_defs pump_branch_def
        SOIL_MOISTURE_THRESHOLD_def LDR_DARK_THRESHOLD_def while_pump_on_append)

lemma branches_v2_events:
  "\<exists>evs. trace (snd (handleWateringLogic_branches_v2 soil haAgua hour s)) = trace s @ evs
     \<and> (\<forall>l. relay_after l evs = HIGH)
     \<and> while_pump_on HIGH evs =
         (if pump_branch_v2 soil haAgua hour then [Delay PUMP_ON_TIME_MS] else [])
     \<and> (DigitalWrite RELE_PIN LOW \<in> set evs \<longleftrightarrow> pump_branch_v2 soil haAgua hour)"
  by (simp add: handleWateringLogic_branches_v2_def Let_def prim_defs pump_branch_v2_def
        SOIL_MOISTURE_THRESHOLD_def while_pump_on_append)

lemma hWL_relay:
  "relay_after l (emitted s (handleWateringLogic E K soil haAgua hour lightValue s)) = HIGH"
proof -
  obtain evs where 1:
      "trace (snd (handleWateringLogic_branches soil haAgua hour lightValue s)) = trace s @ evs"
      "\<forall>l. relay_after l evs = HIGH"
    using branches_events [of soil haAgua hour lightValue s] by blast
  show ?thesis
    using 1 by (simp add: hWL_eq)
qed

section \<open>The watering decision\<close>

text \<open>
  C1. When the soil reading is at most \<open>SOIL_MOISTURE_THRESHOLD\<close> (1200), an invocation of
  \<open>handleWateringLogic\<close> never drives the relay pin \<open>LOW\<close>, whatever the hour, the water
  level, the light, the environment and the state it starts from, in both variants.
\<close>

theorem wet_soil_never_energizes_pump:
  assumes "soil \<le> SOIL_MOISTURE_THRESHOLD"
  shows "DigitalWrite RELE_PIN LOW \<notin>
           set (emitted s (handleWateringLogic E K soil haAgua hour lightValue s))
       \<and> DigitalWrite RELE_PIN LOW \<notin>
           set (emitted s (handleWateringLogic_v2 E K soil haAgua hour s))"
  by (simp add: hWL_eq hWL_v2_eq branches_wet [OF assms])

theorem wet_soil_never_energizes_pump_witness:
  "(800::int) \<le> SOIL_MOISTURE_THRESHOLD
   \<and> DigitalWrite RELE_PIN LOW \<notin>
       set (emitted state0 (handleWateringLogic env0 chaves0 800 True 20 2000 state0))
   \<and> DigitalWrite RELE_PIN LOW \<notin>
       set (emitted state0 (handleWateringLogic_v2 env0 chaves0 800 True 20 state0))"
  using wet_soil_never_energizes_pump [of 800 state0 env0 chaves0 True 20 2000]
  by (simp add: SOIL_MOISTURE_THRESHOLD_def)

text \<open>
  C3. \<open>isNightHour hour\<close> holds exactly when \<open>hour \<ge> 18\<close> or \<open>hour < 12\<close>; of the hours
  0 to 23 these are 0 to 11 and 18 to 23, eighteen hours of the twenty-four.
\<close>

theorem isNightHour_window:
  "(isNightHour hour \<longleftrightarrow> hour \<ge> 18 \<or> hour < 12)
   \<and> filter isNightHour [0..23] = [0, 1, 2, 3, 4, 5, 6, 7, 8, 9, 10, 11, 18, 19, 20, 21, 22, 23]
   \<and> length (filter isNightHour [0..23]) = 18"
proof -
  have a: "isNightHour hour \<longleftrightarrow> hour \<ge> 18 \<or> hour < 12"
    by (simp add: isNightHour_def NIGHT_START_HOUR_def NIGHT_END_HOUR_def)
  have b: "filter isNightHour [0..23] =
             [0, 1, 2, 3, 4, 5, 6, 7, 8, 9, 10, 11, 18, 19, 20, 21, 22, 23]"
    by code_simp
  from a b show ?thesis by simp
qed

theorem isNightHour_window_witness:
  "isNightHour 20 \<and> isNightHour 9 \<and> \<not> isNightHour 14"
  using isNightHour_window [of 20] isNightHour_window [of 9] isNightHour_window [of 14]
  by simp

text \<open>
  C4. Every invocation of \<open>handleWateringLogic\<close> ends in the call of \<open>sendToThingSpeak\<close>
  whose argument \<open>bomba\<close> (telemetry field 5) is 1 if the guard of the pump-energizing branch
  holds (dry soil, night, water present and, in the light-aware variant, dark) and 0 if it
  does not; and the branches drive the relay \<open>LOW\<close> exactly under that guard. Both variants.
\<close>

theorem pump_flag_reported:
  "handleWateringLogic E K soil haAgua hour lightValue s =
     sendToThingSpeak E K lightValue soil (dhtHumidity E (tick s)) (dhtTemperature E (Suc (tick s)))
       (if pump_branch soil haAgua hour lightValue then 1 else 0) (bool_int haAgua)
       ((snd (handleWateringLogic_branches soil haAgua hour lightValue s))\<lparr>tick := tick s + 2\<rparr>)
   \<and> (DigitalWrite RELE_PIN LOW \<in>
         set (emitted s (snd (handleWateringLogic_branches soil haAgua hour lightValue s)))
       \<longleftrightarrow> pump_branch soil haAgua hour lightValue)
   \<and> handleWateringLogic_v2 E K soil haAgua hour s =
     sendToThingSpeak E K (level_int (digitalIn E LDR_PIN_v2 (tick s))) soil
       (dhtHumidity E (Suc (tick s))) (dhtTemperature E (Suc (Suc (tick s))))
       (if pump_branch_v2 soil haAgua hour then 1 else 0) (bool_int haAgua)
       ((snd (handleWateringLogic_branches_v2 soil haAgua hour s))
          \<lparr>tick := Suc (Suc (Suc (tick s)))\<rparr>)
   \<and> (DigitalWrite RELE_PIN LOW \<in>
         set (emitted s (snd (handleWateringLogic_branches_v2 soil haAgua hour s)))
       \<longleftrightarrow> pump_branch_v2 soil haAgua hour)"
proof -
  obtain evs where 1:
      "trace (snd (handleWateringLogic_branches soil haAgua hour lightValue s)) = trace s @ evs"
      "DigitalWrite RELE_PIN LOW \<in> set evs \<longleftrightarrow> pump_branch soil haAgua hour lightValue"
    using branches_events [of soil haAgua hour lightValue s] by blast
  obtain evs2 where 2:
      "trace (snd (handleWateringLogic_branches_v2 soil haAgua hour s)) = trace s @ evs2"
      "DigitalWrite RELE_PIN LOW \<in> set evs2 \<longleftrightarrow> pump_branch_v2 soil haAgua hour"
    using branches_v2_events [of soil haAgua hour s] by blast
  show ?thesis
    using 1 2 hWL_eq [of E K soil haAgua hour lightValue s] hWL_v2_eq [of E K soil haAgua hour s]
    by simp
qed

theorem pump_flag_reported_witness:
  "pump_branch 1500 True 20 2000
   \<and> DigitalWrite RELE_PIN LOW \<in>
       set (emitted state0 (snd (handleWateringLogic_branches 1500 True 20 2000 state0)))
   \<and> handleWateringLogic env0 chaves0 1500 True 20 2000 state0 =
       sendToThingSpeak env0 chaves0 2000 1500 (dhtHumidity env0 (tick state0))
         (dhtTemperature env0 (Suc (tick state0))) 1 1
         ((snd (handleWateringLogic_branches 1500 True 20 2000 state0))
            \<lparr>tick := tick state0 + 2\<rparr>)
   \<and> \<not> pump_branch 1500 True 14 2000
   \<and> DigitalWrite RELE_PIN LOW \<notin>
       set (emitted state0 (snd (handleWateringLogic_branches 1500 True 14 2000 state0)))"
proof -
  have p: "pump_branch 1500 True 20 2000" "\<not> pump_branch 1500 True 14 2000"
    by (simp_all add: pump_branch_def isNightHour_def NIGHT_START_HOUR_def NIGHT_END_HOUR_def)
  show ?thesis
    using pump_flag_reported [where E = env0 and K = chaves0 and soil = 1500 and haAgua = True
        and hour = 20 and lightValue = 2000 and s = state0]
      pump_flag_reported [where E = env0 and K = chaves0 and soil = 1500 and haAgua = True
        and hour = 14 and lightValue = 2000 and s = state0] p
    by (simp add: bool_int_def)
qed

text \<open>
  C10. Whatever the level of the relay pin before an invocation of \<open>handleWateringLogic\<close>, it
  is \<open>HIGH\<close> after it; and, entered with the relay \<open>HIGH\<close>, the only thing that happens while
  the relay is \<open>LOW\<close> is the one \<open>delay(PUMP_ON_TIME_MS)\<close> of the pump branch. Both variants.
\<close>

theorem relay_high_at_return:
  "relay_after l (emitted s (handleWateringLogic E K soil haAgua hour lightValue s)) = HIGH
   \<and> relay_after l (emitted s (handleWateringLogic_v2 E K soil haAgua hour s)) = HIGH
   \<and> while_pump_on HIGH (emitted s (handleWateringLogic E K soil haAgua hour lightValue s)) =
       (if pump_branch soil haAgua hour lightValue then [Delay PUMP_ON_TIME_MS] else [])
   \<and> while_pump_on HIGH (emitted s (handleWateringLogic_v2 E K soil haAgua hour s)) =
       (if pump_branch_v2 soil haAgua hour then [Delay PUMP_ON_TIME_MS] else [])"
proof -
  obtain evs where 1:
      "trace (snd (handleWateringLogic_branches soil haAgua hour lightValue s)) = trace s @ evs"
      "\<forall>l. relay_after l evs = HIGH"
      "while_pump_on HIGH evs =
         (if pump_branch soil haAgua hour lightValue then [Delay PUMP_ON_TIME_MS] else [])"
    using branches_events [of soil haAgua hour lightValue s] by blast
  obtain evs2 where 2:
      "trace (snd (handleWateringLogic_branches_v2 soil haAgua hour s)) = trace s @ evs2"
      "\<forall>l. relay_after l evs2 = HIGH"
      "while_pump_on HIGH evs2 =
         (if pump_branch_v2 soil haAgua hour then [Delay PUMP_ON_TIME_MS] else [])"
    using branches_v2_events [of soil haAgua hour s] by blast
  show ?thesis
    using 1 2 by (simp add: hWL_eq hWL_v2_eq while_pump_on_append)
qed

theorem relay_high_at_return_witness:
  "relay_after LOW (emitted state0 (handleWateringLogic env0 chaves0 1500 True 20 2000 state0)) = HIGH
   \<and> while_pump_on HIGH (emitted state0 (handleWateringLogic env0 chaves0 1500 True 20 2000 state0))
       = [Delay PUMP_ON_TIME_MS]
   \<and> relay_after LOW (emitted state0 (handleWateringLogic_v2 env0 chaves0 1500 True 20 state0)) = HIGH
   \<and> while_pump_on HIGH (emitted state0 (handleWateringLogic_v2 env0 chaves0 1500 True 20 state0))
       = [Delay PUMP_ON_TIME_MS]"
proof -
  have p: "pump_branch 1500 True 20 2000" "pump_branch_v2 1500 True 20"
    by (simp_all add: pump_branch_def pump_branch_v2_def isNightHour_def NIGHT_START_HOUR_def
          NIGHT_END_HOUR_def)
  show ?thesis
    using relay_high_at_return [where l = LOW and s = state0 and E = env0 and K = chaves0
        and soil = 1500 and haAgua = True and hour = 20 and lightValue = 2000] p
    by simp
qed

text \<open>
  C2, at soil 1500, water present, hour 14 and light 2000 (dry, daytime, dark) in the
  light-aware variant: neither of the first two branches applies, and the invocation takes
  the last branch: it logs that the plant is in good condition, drives the relay \<open>HIGH\<close> and
  the LED \<open>LOW\<close>, and reports; \<open>blinkLED\<close> is not called.
\<close>

theorem dry_day_dark_no_warning:
  "emitted s (handleWateringLogic E K 1500 True 14 2000 s) =
     [SerialPrintln good_log, DigitalWrite RELE_PIN HIGH, DigitalWrite LED_PIN LOW] @
     send_events E K 2000 1500 (dhtHumidity E (tick s)) (dhtTemperature E (Suc (tick s))) 0 1
       (tick s + 2)"
  by (simp add: hWL_eq handleWateringLogic_branches_def Let_def prim_defs pump_branch_def
        isNightHour_def NIGHT_START_HOUR_def NIGHT_END_HOUR_def SOIL_MOISTURE_THRESHOLD_def
        LDR_DARK_THRESHOLD_def good_log_def bool_int_def)

text \<open>
  Where the warning is raised: in the second variant for every dry reading outside the night
  window, and in the light-aware variant for every dry reading that is not dark and does not
  fall to the first branch.
\<close>

lemma long_blink_v2:
  assumes "soil > SOIL_MOISTURE_THRESHOLD" and "\<not> isNightHour hour"
  shows "emitted s (snd (handleWateringLogic_branches_v2 soil haAgua hour s)) =
           SerialPrintln (''Planta precisa de '' @ [CHR 0xC3, CHR 0xA1] @ ''gua!'')
           # concat (replicate 5 (blink_cycle LED_BLINK_LONG)) @ [DigitalWrite RELE_PIN HIGH]"
  using assms by (simp add: handleWateringLogic_branches_v2_def Let_def prim_defs)

lemma long_blink_bright:
  assumes "soil > SOIL_MOISTURE_THRESHOLD" and "lightValue \<le> LDR_DARK_THRESHOLD"
    and "isNightHour hour \<longrightarrow> haAgua"
  shows "emitted s (snd (handleWateringLogic_branches soil haAgua hour lightValue s)) =
           SerialPrintln (''Solo seco, mas luminosidade est'' @ [CHR 0xC3, CHR 0xA1] @ '' alta ''
                       @ [CHR 0xE2, CHR 0x80, CHR 0x94] @ '' n'' @ [CHR 0xC3, CHR 0xA3]
                       @ ''o ligar a bomba.'')
           # concat (replicate 5 (blink_cycle LED_BLINK_LONG)) @ [DigitalWrite RELE_PIN HIGH]"
  using assms by (auto simp: handleWateringLogic_branches_def Let_def prim_defs)

lemma split_on_nonempty [simp]: "split_on c x \<noteq> []"
  by (induction x) (auto split: list.splits)

lemma split_on_plain: "c \<notin> set a \<Longrightarrow> split_on c a = [a]"
  by (induction a) auto

lemma split_on_append: "c \<notin> set a \<Longrightarrow> split_on c (a @ c # r) = a # split_on c r"
  by (induction a) auto

lemma digit_char_set: "d < 10 \<Longrightarrow> digit_char d \<in> set ''0123456789''"
  unfolding digit_char_def by (rule nth_mem) simp

lemma digit_char_no_amp: "d < 10 \<Longrightarrow> digit_char d \<noteq> CHR ''&''"
  using digit_char_set [of d] by auto

lemma digits_no_amp: "CHR ''&'' \<notin> set (digits n)"
proof (induction n rule: digits.induct)
  case (1 n)
  show ?case
  proof (cases "n < 10")
    case True
    then show ?thesis using digit_char_no_amp [of n] by (simp add: digits.simps [of n])
  next
    case False
    have "n mod 10 < 10" by simp
    from digit_char_no_amp [OF this] 1 False show ?thesis
      by (simp add: digits.simps [of n])
  qed
qed

lemma String_int_no_amp [simp]: "CHR ''&'' \<notin> set (String_int n)"
  by (simp add: String_int_def digits_no_amp)

lemma params_of_url:
  assumes "CHR ''&'' \<notin> set key" "CHR ''&'' \<notin> set f3" "CHR ''&'' \<notin> set f4"
  shows "query_params (''http://api.thingspeak.com/update?api_key='' @ key @
           ''&field1='' @ String_int luz @ ''&field2='' @ String_int solo @
           ''&field3='' @ f3 @ ''&field4='' @ f4 @
           ''&field5='' @ String_int bomba @ ''&field6='' @ String_int agua) =
         [(''api_key'', key), (''field1'', String_int luz), (''field2'', String_int solo),
          (''field3'', f3), (''field4'', f4), (''field5'', String_int bomba),
          (''field6'', String_int agua)]"
proof -
  have s1: "\<And>a r. CHR ''&'' \<notin> set a \<Longrightarrow>
              split_on CHR ''&'' (a @ CHR ''&'' # r) = a # split_on CHR ''&'' r"
    by (rule split_on_append)
  have "split_on CHR ''&'' ((''api_key='' @ key) @ CHR ''&'' # (''field1='' @ String_int luz) @ CHR ''&'' #
           (''field2='' @ String_int solo) @ CHR ''&'' # (''field3='' @ f3) @ CHR ''&'' # (''field4='' @ f4) @ CHR ''&'' #
           (''field5='' @ String_int bomba) @ CHR ''&'' # (''field6='' @ String_int agua)) =
        [''api_key='' @ key, ''field1='' @ String_int luz, ''field2='' @ String_int solo,
         ''field3='' @ f3, ''field4='' @ f4, ''field5='' @ String_int bomba, ''field6='' @ String_int agua]"
    using assms by (simp add: split_on_append split_on_plain del: split_on.simps append.simps append_assoc)
  then show ?thesis
    by (simp add: query_params_def after_def before_def)
qed

section \<open>Telemetry\<close>

text \<open>
  C5, as the code has it. \<open>sendToThingSpeak\<close> asks \<open>WiFi.status()\<close> once and does not look at
  the flag \<open>wifiConnected\<close>: if the answer is connected, it builds the URL, begins the
  request, issues one GET, logs the outcome and ends the request; if not, it logs one line
  and returns. Either way the two flags are left as they were, and nothing is kept for later.
\<close>

theorem telemetry_iff_live_status:
  "emitted s (sendToThingSpeak E K luz solo umidAr temp bomba agua s) =
     (if WiFi_connected E (tick s)
      then [HttpBegin (telemetry_url E K luz solo umidAr temp bomba agua), HttpGET,
            SerialPrintln (http_log (httpAnswer E (Suc (tick s)))), HttpEnd]
      else [SerialPrintln no_wifi_log])
   \<and> wifiConnected (sendToThingSpeak E K luz solo umidAr temp bomba agua s) = wifiConnected s
   \<and> timeValid (sendToThingSpeak E K luz solo umidAr temp bomba agua s) = timeValid s"
  by (simp add: send_events_def)

theorem telemetry_iff_live_status_witness:
  "WiFi_connected env0 (tick state0)
   \<and> emitted state0 (sendToThingSpeak env0 chaves0 2000 1500 0x42480000 0x41C80000 1 1 state0) =
       [HttpBegin (telemetry_url env0 chaves0 2000 1500 0x42480000 0x41C80000 1 1), HttpGET,
        SerialPrintln (http_log 200), HttpEnd]
   \<and> \<not> WiFi_connected env_down (tick state0)
   \<and> emitted state0 (sendToThingSpeak env_down chaves0 2000 1500 0x42480000 0x41C80000 1 1 state0) =
       [SerialPrintln no_wifi_log]"
  using telemetry_iff_live_status [where s = state0 and E = env0 and K = chaves0 and luz = 2000
      and solo = 1500 and umidAr = "0x42480000" and temp = "0x41C80000" and bomba = 1 and agua = 1]
    telemetry_iff_live_status [where s = state0 and E = env_down and K = chaves0 and luz = 2000
      and solo = 1500 and umidAr = "0x42480000" and temp = "0x41C80000" and bomba = 1 and agua = 1]
  by (simp add: env0_def env_down_def state0_def)

text \<open>
  C5, as stated, fails: with the flag \<open>wifiConnected\<close> true and the network down at the time of
  the call, no request is built and none is issued.
\<close>

theorem telemetry_flag_counterexample:
  "wifiConnected state_up
   \<and> HttpGET \<notin> set (emitted state_up
         (sendToThingSpeak env_down chaves0 2000 1500 0x42480000 0x41C80000 0 1 state_up))
   \<and> http_urls (emitted state_up
         (sendToThingSpeak env_down chaves0 2000 1500 0x42480000 0x41C80000 0 1 state_up)) = []"
  by (simp add: send_events_def env_down_def env0_def state_up_def state0_def)

lemma url_base_telemetry:
  "url_base (telemetry_url E K luz solo umidAr temp bomba agua) = ''http://api.thingspeak.com/update''"
  by (simp add: url_base_def before_def telemetry_url_def)

lemma flag_digits: "String_int (bool_int b) = (if b then ''1'' else ''0'')"
  by (simp add: bool_int_def String_int_def digits.simps digit_char_def)

text \<open>
  C6. When \<open>WiFi.status()\<close> answers connected, a call of \<open>sendToThingSpeak\<close> makes one request:
  begin, one GET, end. Its URL has the fixed base \<open>http://api.thingspeak.com/update\<close> and
  exactly seven query parameters, in this order: \<open>api_key\<close> (the write key), \<open>field1\<close> (light),
  \<open>field2\<close> (soil), \<open>field3\<close> (humidity), \<open>field4\<close> (temperature), \<open>field5\<close> (pump) and
  \<open>field6\<close> (water), the integers in decimal. The URL is the concatenation the source writes;
  it reads back as these seven parameters if the write key and the rendering of the two floats
  hold no \<open>&\<close>. (The callers pass 0 or 1 for pump and water, rendered as one digit:
  \<open>flag_digits\<close>.)
\<close>

theorem telemetry_request_layout:
  assumes "WiFi_connected E (tick s)"
  shows "filter is_http (emitted s (sendToThingSpeak E K luz solo umidAr temp bomba agua s)) =
           [HttpBegin (telemetry_url E K luz solo umidAr temp bomba agua), HttpGET, HttpEnd]
       \<and> telemetry_url E K luz solo umidAr temp bomba agua =
           ''http://api.thingspeak.com/update?api_key='' @ WRITE_KEY K @
           ''&field1='' @ String_int luz @ ''&field2='' @ String_int solo @
           ''&field3='' @ floatStr E umidAr @ ''&field4='' @ floatStr E temp @
           ''&field5='' @ String_int bomba @ ''&field6='' @ String_int agua
       \<and> url_base (telemetry_url E K luz solo umidAr temp bomba agua) =
           ''http://api.thingspeak.com/update''
       \<and> (CHR ''&'' \<notin> set (WRITE_KEY K) \<and> CHR ''&'' \<notin> set (floatStr E umidAr)
            \<and> CHR ''&'' \<notin> set (floatStr E temp) \<longrightarrow>
          query_params (telemetry_url E K luz solo umidAr temp bomba agua) =
           [(''api_key'', WRITE_KEY K), (''field1'', String_int luz), (''field2'', String_int solo),
            (''field3'', floatStr E umidAr), (''field4'', floatStr E temp),
            (''field5'', String_int bomba), (''field6'', String_int agua)])"
proof -
  have q: "CHR ''&'' \<notin> set (WRITE_KEY K) \<and> CHR ''&'' \<notin> set (floatStr E umidAr)
            \<and> CHR ''&'' \<notin> set (floatStr E temp) \<longrightarrow>
          query_params (telemetry_url E K luz solo umidAr temp bomba agua) =
           [(''api_key'', WRITE_KEY K), (''field1'', String_int luz), (''field2'', String_int solo),
            (''field3'', floatStr E umidAr), (''field4'', floatStr E temp),
            (''field5'', String_int bomba), (''field6'', String_int agua)]"
  proof
    assume h: "CHR ''&'' \<notin> set (WRITE_KEY K) \<and> CHR ''&'' \<notin> set (floatStr E umidAr)
            \<and> CHR ''&'' \<notin> set (floatStr E temp)"
    show "query_params (telemetry_url E K luz solo umidAr temp bomba agua) =
           [(''api_key'', WRITE_KEY K), (''field1'', String_int luz), (''field2'', String_int solo),
            (''field3'', floatStr E umidAr), (''field4'', floatStr E temp),
            (''field5'', String_int bomba), (''field6'', String_int agua)]"
      unfolding telemetry_url_def
      by (rule params_of_url) (use h in blast)+
  qed
  have u: "telemetry_url E K luz solo umidAr temp bomba agua =
           ''http://api.thingspeak.com/update?api_key='' @ WRITE_KEY K @
           ''&field1='' @ String_int luz @ ''&field2='' @ String_int solo @
           ''&field3='' @ floatStr E umidAr @ ''&field4='' @ floatStr E temp @
           ''&field5='' @ String_int bomba @ ''&field6='' @ String_int agua"
    by (simp only: telemetry_url_def)
  have f: "filter is_http (emitted s (sendToThingSpeak E K luz solo umidAr temp bomba agua s)) =
           [HttpBegin (telemetry_url E K luz solo umidAr temp bomba agua), HttpGET, HttpEnd]"
    using assms by (simp add: send_events_def)
  from f u q url_base_telemetry [of E K luz solo umidAr temp bomba agua] show ?thesis
    by blast
qed

theorem telemetry_request_layout_witness:
  "WiFi_connected env0 (tick state0)
   \<and> CHR ''&'' \<notin> set (WRITE_KEY chaves0)
   \<and> CHR ''&'' \<notin> set (floatStr env0 0x42480000)
   \<and> CHR ''&'' \<notin> set (floatStr env0 0x41C80000)
   \<and> filter is_http (emitted state0
         (sendToThingSpeak env0 chaves0 2000 1500 0x42480000 0x41C80000 1 1 state0)) =
       [HttpBegin ''http://api.thingspeak.com/update?api_key=KEY&field1=2000&field2=1500&field3=50.00&field4=25.00&field5=1&field6=1'',
        HttpGET, HttpEnd]
   \<and> query_params (telemetry_url env0 chaves0 2000 1500 0x42480000 0x41C80000 1 1) =
       [(''api_key'', ''KEY''), (''field1'', ''2000''), (''field2'', ''1500''),
        (''field3'', ''50.00''), (''field4'', ''25.00''), (''field5'', ''1''), (''field6'', ''1'')]"
proof -
  have c: "WiFi_connected env0 (tick state0)"
    by (simp add: env0_def state0_def)
  have h: "CHR ''&'' \<notin> set (WRITE_KEY chaves0)"
     "CHR ''&'' \<notin> set (floatStr env0 0x42480000)" "CHR ''&'' \<notin> set (floatStr env0 0x41C80000)"
    by (simp_all add: env0_def chaves0_def)
  have u: "telemetry_url env0 chaves0 2000 1500 0x42480000 0x41C80000 1 1 =
     ''http://api.thingspeak.com/update?api_key=KEY&field1=2000&field2=1500&field3=50.00&field4=25.00&field5=1&field6=1''"
    by (simp add: telemetry_url_def env0_def chaves0_def String_int_def digits.simps digit_char_def)
  have d: "String_int 2000 = ''2000''" "String_int 1500 = ''1500''" "String_int 1 = ''1''"
    by (simp_all add: String_int_def digits.simps digit_char_def)
  have v: "WRITE_KEY chaves0 = ''KEY''" "floatStr env0 0x42480000 = ''50.00''"
     "floatStr env0 0x41C80000 = ''25.00''"
    by (simp_all add: env0_def chaves0_def)
  note th = telemetry_request_layout [OF c, where K = chaves0 and luz = 2000 and solo = 1500
      and umidAr = "0x42480000" and temp = "0x41C80000" and bomba = 1 and agua = 1]
  have 1: "filter is_http (emitted state0
         (sendToThingSpeak env0 chaves0 2000 1500 0x42480000 0x41C80000 1 1 state0)) =
       [HttpBegin ''http://api.thingspeak.com/update?api_key=KEY&field1=2000&field2=1500&field3=50.00&field4=25.00&field5=1&field6=1'',
        HttpGET, HttpEnd]"
    using th [THEN conjunct1] by (simp only: u)
  have 2: "query_params (telemetry_url env0 chaves0 2000 1500 0x42480000 0x41C80000 1 1) =
       [(''api_key'', ''KEY''), (''field1'', ''2000''), (''field2'', ''1500''),
        (''field3'', ''50.00''), (''field4'', ''25.00''), (''field5'', ''1''), (''field6'', ''1'')]"
    using th [THEN conjunct2, THEN conjunct2, THEN conjunct2] h by (simp only: d v simp_thms)
  from c h 1 2 show ?thesis by blast
qed

section \<open>Association\<close>

lemma WiFi_poll_spec:
  "\<exists>n. n \<le> nat (WIFI_MAX_ATTEMPTS - attempts)
     \<and> trace (WiFi_poll E attempts s) = trace s @ concat (replicate n poll_round)
     \<and> tick (WiFi_poll E attempts s) = tick s + n + 1
     \<and> wifiConnected (WiFi_poll E attempts s) = wifiConnected s
     \<and> timeValid (WiFi_poll E attempts s) = timeValid s"
proof (induction E attempts s rule: WiFi_poll.induct)
  case (1 E attempts s)
  show ?case
  proof (cases "\<not> fst (WiFi_status E s) \<and> attempts < WIFI_MAX_ATTEMPTS")
    case True
    let ?s' = "Serial_print ''.'' (delay 500 (snd (WiFi_status E s)))"
    from 1 [OF True] obtain n where n: "n \<le> nat (WIFI_MAX_ATTEMPTS - (attempts + 1))"
      "trace (WiFi_poll E (attempts + 1) ?s') = trace ?s' @ concat (replicate n poll_round)"
      "tick (WiFi_poll E (attempts + 1) ?s') = tick ?s' + n + 1"
      "wifiConnected (WiFi_poll E (attempts + 1) ?s') = wifiConnected ?s'"
      "timeValid (WiFi_poll E (attempts + 1) ?s') = timeValid ?s'"
      by blast
    have eq: "WiFi_poll E attempts s = WiFi_poll E (attempts + 1) ?s'"
      using True by (subst WiFi_poll.simps) simp
    have "Suc n \<le> nat (WIFI_MAX_ATTEMPTS - attempts)" using n(1) True by linarith
    moreover have "trace (WiFi_poll E attempts s) = trace s @ concat (replicate (Suc n) poll_round)"
      using n(2) by (simp add: eq prim_defs read_defs poll_round_def)
    moreover have "tick (WiFi_poll E attempts s) = tick s + Suc n + 1"
      using n(3) by (simp add: eq prim_defs read_defs)
    moreover have "wifiConnected (WiFi_poll E attempts s) = wifiConnected s"
      "timeValid (WiFi_poll E attempts s) = timeValid s"
      using n(4,5) by (simp_all add: eq prim_defs read_defs)
    ultimately show ?thesis by blast
  next
    case False
    then have "WiFi_poll E attempts s = snd (WiFi_status E s)"
      by (auto simp: WiFi_poll.simps [of E attempts s])
    then have "0 \<le> nat (WIFI_MAX_ATTEMPTS - attempts)
       \<and> trace (WiFi_poll E attempts s) = trace s @ concat (replicate 0 poll_round)
       \<and> tick (WiFi_poll E attempts s) = tick s + 0 + 1
       \<and> wifiConnected (WiFi_poll E attempts s) = wifiConnected s
       \<and> timeValid (WiFi_poll E attempts s) = timeValid s"
      by (simp add: read_defs)
    then show ?thesis by blast
  qed
qed

lemma begins_append [simp]: "begins (xs @ ys) = begins xs @ begins ys"
  by (induction xs rule: begins.induct) simp_all

lemma begins_rounds [simp]: "begins (concat (replicate n poll_round)) = []"
  by (induction n) (simp_all add: poll_round_def)

lemma config_rounds [simp]: "filter is_ConfigTime (concat (replicate n poll_round)) = []"
  by (induction n) (simp_all add: poll_round_def)

lemma polls_ok_rounds:
  "k + n \<le> nat WIFI_MAX_ATTEMPTS \<Longrightarrow>
     polls_ok k (concat (replicate n poll_round) @ ys) = polls_ok (k + n) ys"
  by (induction n arbitrary: k) (simp_all add: poll_round_def)

declare connectWiFi_loop.simps(2) [simp del]

lemma connectWiFi_loop_Cons:
  "\<exists>n \<le> nat WIFI_MAX_ATTEMPTS. \<exists>s3.
     trace s3 = trace s @ [SerialPrint ''Tentando conectar em: '', SerialPrintln ssid,
                           WiFiBegin ssid senha] @ concat (replicate n poll_round)
     \<and> 0 < tick s3
     \<and> wifiConnected s3 = wifiConnected s \<and> timeValid s3 = timeValid s
     \<and> connectWiFi_loop E ((ssid, senha) # rest) s =
         (if WiFi_connected E (tick s3 - 1)
          then (True, delay 2000
                   (emit (ConfigTime GMT_OFFSET_SEC DAYLIGHT_OFFSET_SEC NTP_SERVER)
                     ((Serial_println ssid (Serial_print connect_ok_log s3))
                      \<lparr>wifiConnected := True\<rparr>)))
          else connectWiFi_loop E rest (Serial_println connect_fail_log s3))"
proof -
  let ?s1 = "Serial_println ssid (Serial_print ''Tentando conectar em: '' s)"
  let ?s2 = "WiFi_poll E 0 (emit (WiFiBegin ssid senha) ?s1)"
  obtain n where n: "n \<le> nat (WIFI_MAX_ATTEMPTS - 0)"
      "trace ?s2 = trace (emit (WiFiBegin ssid senha) ?s1) @ concat (replicate n poll_round)"
      "tick ?s2 = tick (emit (WiFiBegin ssid senha) ?s1) + n + 1"
      "wifiConnected ?s2 = wifiConnected (emit (WiFiBegin ssid senha) ?s1)"
      "timeValid ?s2 = timeValid (emit (WiFiBegin ssid senha) ?s1)"
    using WiFi_poll_spec [of 0 E "emit (WiFiBegin ssid senha) ?s1"] by blast
  let ?s3 = "?s2\<lparr>tick := Suc (tick ?s2)\<rparr>"
  have "n \<le> nat WIFI_MAX_ATTEMPTS" using n(1) by simp
  moreover have "trace ?s3 = trace s @ [SerialPrint ''Tentando conectar em: '', SerialPrintln ssid,
                           WiFiBegin ssid senha] @ concat (replicate n poll_round)"
    using n(2) by (simp add: prim_defs)
  moreover have "0 < tick ?s3" by simp
  moreover have "wifiConnected ?s3 = wifiConnected s" "timeValid ?s3 = timeValid s"
    using n(4,5) by (simp_all add: prim_defs)
  moreover have "connectWiFi_loop E ((ssid, senha) # rest) s =
         (if WiFi_connected E (tick ?s3 - 1)
          then (True, delay 2000
                   (emit (ConfigTime GMT_OFFSET_SEC DAYLIGHT_OFFSET_SEC NTP_SERVER)
                     ((Serial_println ssid (Serial_print connect_ok_log ?s3))
                      \<lparr>wifiConnected := True\<rparr>)))
          else connectWiFi_loop E rest (Serial_println connect_fail_log ?s3))"
    by (simp add: connectWiFi_loop.simps(2) Let_def WiFi_status_def connect_ok_log_def
          connect_fail_log_def)
  ultimately show ?thesis by blast
qed

lemma connectWiFi_loop_spec:
  "\<exists>evs. trace (snd (connectWiFi_loop E cands s)) = trace s @ evs
     \<and> (\<forall>c. polls_ok c evs)
     \<and> timeValid (snd (connectWiFi_loop E cands s)) = timeValid s
     \<and> (fst (connectWiFi_loop E cands s) \<longrightarrow>
          wifiConnected (snd (connectWiFi_loop E cands s))
          \<and> (\<exists>m < length cands. begins evs = take (Suc m) cands)
          \<and> (\<exists>pre. evs = pre @ time_config \<and> filter is_ConfigTime pre = [])
          \<and> WiFi_connected E (tick (snd (connectWiFi_loop E cands s)) - 1))
     \<and> (\<not> fst (connectWiFi_loop E cands s) \<longrightarrow>
          wifiConnected (snd (connectWiFi_loop E cands s)) = wifiConnected s
          \<and> begins evs = cands \<and> filter is_ConfigTime evs = []
          \<and> (cands \<noteq> [] \<longrightarrow> \<not> WiFi_connected E (tick (snd (connectWiFi_loop E cands s)) - 1)))"
proof (induction cands arbitrary: s)
  case Nil
  show ?case by simp
next
  case (Cons p rest)
  obtain ssid senha where p: "p = (ssid, senha)" by (cases p)
  let ?hdr = "[SerialPrint ''Tentando conectar em: '', SerialPrintln ssid, WiFiBegin ssid senha]"
  obtain n s3 where n: "n \<le> nat WIFI_MAX_ATTEMPTS"
    and tr: "trace s3 = trace s @ ?hdr @ concat (replicate n poll_round)"
    and tk: "0 < tick s3"
    and fl: "wifiConnected s3 = wifiConnected s" "timeValid s3 = timeValid s"
    and eq: "connectWiFi_loop E ((ssid, senha) # rest) s =
         (if WiFi_connected E (tick s3 - 1)
          then (True, delay 2000
                   (emit (ConfigTime GMT_OFFSET_SEC DAYLIGHT_OFFSET_SEC NTP_SERVER)
                     ((Serial_println ssid (Serial_print connect_ok_log s3))
                      \<lparr>wifiConnected := True\<rparr>)))
          else connectWiFi_loop E rest (Serial_println connect_fail_log s3))"
    using connectWiFi_loop_Cons [of s ssid senha E rest] by blast
  have hdr_polls: "\<And>c ys. polls_ok c (?hdr @ concat (replicate n poll_round) @ ys) = polls_ok n ys"
    using n polls_ok_rounds [of 0 n] by simp
  show ?case
  proof (cases "WiFi_connected E (tick s3 - 1)")
    case True
    let ?evs = "?hdr @ concat (replicate n poll_round)
                  @ [SerialPrint connect_ok_log, SerialPrintln ssid] @ time_config"
    let ?r = "connectWiFi_loop E ((ssid, senha) # rest) s"
    have r: "?r = (True, delay 2000
                   (emit (ConfigTime GMT_OFFSET_SEC DAYLIGHT_OFFSET_SEC NTP_SERVER)
                     ((Serial_println ssid (Serial_print connect_ok_log s3))
                      \<lparr>wifiConnected := True\<rparr>)))"
      using eq True by simp
    have 1: "trace (snd ?r) = trace s @ ?evs"
      by (simp add: r prim_defs tr time_config_def)
    have 2: "\<forall>c. polls_ok c ?evs"
      using hdr_polls by (simp add: time_config_def)
    have 3: "timeValid (snd ?r) = timeValid s" "wifiConnected (snd ?r)"
      by (simp_all add: r prim_defs fl)
    have 4: "\<exists>m < length ((ssid, senha) # rest). begins ?evs = take (Suc m) ((ssid, senha) # rest)"
      by (rule exI [of _ 0]) (simp add: time_config_def)
    have 5: "\<exists>pre. ?evs = pre @ time_config \<and> filter is_ConfigTime pre = []"
      by (rule exI [of _ "?hdr @ concat (replicate n poll_round)
                  @ [SerialPrint connect_ok_log, SerialPrintln ssid]"]) simp
    have 6: "WiFi_connected E (tick (snd ?r) - 1)"
      using True by (simp add: r prim_defs)
    have 7: "fst ?r" by (simp add: r)
    show ?thesis
      unfolding p using 1 2 3 4 5 6 7 by blast
  next
    case False
    let ?s4 = "Serial_println connect_fail_log s3"
    let ?r = "connectWiFi_loop E ((ssid, senha) # rest) s"
    let ?r' = "connectWiFi_loop E rest ?s4"
    have r: "?r = ?r'" using eq False by simp
    from Cons.IH [of ?s4] obtain evs' where ih:
      "trace (snd ?r') = trace ?s4 @ evs'"
      "\<forall>c. polls_ok c evs'"
      "timeValid (snd ?r') = timeValid ?s4"
      "fst ?r' \<longrightarrow>
          wifiConnected (snd ?r')
          \<and> (\<exists>m < length rest. begins evs' = take (Suc m) rest)
          \<and> (\<exists>pre. evs' = pre @ time_config \<and> filter is_ConfigTime pre = [])
          \<and> WiFi_connected E (tick (snd ?r') - 1)"
      "\<not> fst ?r' \<longrightarrow>
          wifiConnected (snd ?r') = wifiConnected ?s4
          \<and> begins evs' = rest \<and> filter is_ConfigTime evs' = []
          \<and> (rest \<noteq> [] \<longrightarrow> \<not> WiFi_connected E (tick (snd ?r') - 1))"
      by blast
    let ?pre0 = "?hdr @ concat (replicate n poll_round) @ [SerialPrintln connect_fail_log]"
    let ?evs = "?pre0 @ evs'"
    have 1: "trace (snd ?r) = trace s @ ?evs"
      using ih(1) by (simp add: r prim_defs tr)
    have 2: "\<forall>c. polls_ok c ?evs"
      using hdr_polls ih(2) by simp
    have 3: "timeValid (snd ?r) = timeValid s"
      using ih(3) by (simp add: r prim_defs fl)
    have 4: "fst ?r \<longrightarrow>
          wifiConnected (snd ?r)
          \<and> (\<exists>m < length ((ssid, senha) # rest). begins ?evs = take (Suc m) ((ssid, senha) # rest))
          \<and> (\<exists>pre. ?evs = pre @ time_config \<and> filter is_ConfigTime pre = [])
          \<and> WiFi_connected E (tick (snd ?r) - 1)"
    proof
      assume "fst ?r"
      then have f: "fst ?r'" by (simp add: r)
      with ih(4) obtain m pre where m: "m < length rest" "begins evs' = take (Suc m) rest"
        and pre: "evs' = pre @ time_config" "filter is_ConfigTime pre = []"
        and rest: "wifiConnected (snd ?r')" "WiFi_connected E (tick (snd ?r') - 1)"
        by blast
      have a: "\<exists>m < length ((ssid, senha) # rest). begins ?evs = take (Suc m) ((ssid, senha) # rest)"
        by (rule exI [of _ "Suc m"]) (simp add: m)
      have b: "\<exists>pre. ?evs = pre @ time_config \<and> filter is_ConfigTime pre = []"
        by (rule exI [of _ "?pre0 @ pre"]) (simp add: pre)
      show "wifiConnected (snd ?r)
          \<and> (\<exists>m < length ((ssid, senha) # rest). begins ?evs = take (Suc m) ((ssid, senha) # rest))
          \<and> (\<exists>pre. ?evs = pre @ time_config \<and> filter is_ConfigTime pre = [])
          \<and> WiFi_connected E (tick (snd ?r) - 1)"
        using a b rest by (simp add: r)
    qed
    have 5: "\<not> fst ?r \<longrightarrow>
          wifiConnected (snd ?r) = wifiConnected s
          \<and> begins ?evs = (ssid, senha) # rest \<and> filter is_ConfigTime ?evs = []
          \<and> ((ssid, senha) # rest \<noteq> [] \<longrightarrow> \<not> WiFi_connected E (tick (snd ?r) - 1))"
    proof
      assume "\<not> fst ?r"
      then have f: "\<not> fst ?r'" by (simp add: r)
      with ih(5) have g: "wifiConnected (snd ?r') = wifiConnected ?s4"
         "begins evs' = rest" "filter is_ConfigTime evs' = []"
         "rest \<noteq> [] \<longrightarrow> \<not> WiFi_connected E (tick (snd ?r') - 1)"
        by blast+
      have "\<not> WiFi_connected E (tick (snd ?r') - 1)"
      proof (cases rest)
        case Nil
        then show ?thesis using False by (simp add: prim_defs)
      next
        case (Cons a list)
        then show ?thesis using g(4) by simp
      qed
      then show "wifiConnected (snd ?r) = wifiConnected s
          \<and> begins ?evs = (ssid, senha) # rest \<and> filter is_ConfigTime ?evs = []
          \<and> ((ssid, senha) # rest \<noteq> [] \<longrightarrow> \<not> WiFi_connected E (tick (snd ?r) - 1))"
        using g(1,2,3) by (simp add: r prim_defs fl)
    qed
    show ?thesis
      unfolding p using 1 2 3 4 5 by blast
  qed
qed

lemma connectWiFi_run_props:
  "let s' = connectWiFi E K s; evs = emitted s s' in
     polls_ok 0 evs
     \<and> timeValid s' = timeValid s
     \<and> (wifiConnected s' \<longrightarrow>
          (\<exists>m < length (WIFI_LIST K). begins evs = take (Suc m) (WIFI_LIST K))
          \<and> (\<exists>pre. evs = pre @ time_config \<and> filter is_ConfigTime pre = []))
     \<and> (\<not> wifiConnected s' \<longrightarrow> begins evs = WIFI_LIST K \<and> filter is_ConfigTime evs = [])
     \<and> (wifiConnected s' \<longleftrightarrow> WIFI_LIST K \<noteq> [] \<and> WiFi_connected E (tick s' - 1))"
proof -
  let ?start = "''Iniciando tentativa de conex'' @ [CHR 0xC3, CHR 0xA3] @ ''o em redes salvas...''"
  let ?none = "''Nenhuma das redes dispon'' @ [CHR 0xC3, CHR 0xAD]
                 @ ''veis funcionou. Continuando offline...''"
  let ?s0 = "(Serial_println ?start s)\<lparr>wifiConnected := False\<rparr>"
  let ?r = "connectWiFi_loop E (WIFI_LIST K) ?s0"
  let ?s' = "connectWiFi E K s"
  obtain evs where ih:
      "trace (snd ?r) = trace ?s0 @ evs"
      "\<forall>c. polls_ok c evs"
      "timeValid (snd ?r) = timeValid ?s0"
      "fst ?r \<longrightarrow>
          wifiConnected (snd ?r)
          \<and> (\<exists>m < length (WIFI_LIST K). begins evs = take (Suc m) (WIFI_LIST K))
          \<and> (\<exists>pre. evs = pre @ time_config \<and> filter is_ConfigTime pre = [])
          \<and> WiFi_connected E (tick (snd ?r) - 1)"
      "\<not> fst ?r \<longrightarrow>
          wifiConnected (snd ?r) = wifiConnected ?s0
          \<and> begins evs = WIFI_LIST K \<and> filter is_ConfigTime evs = []
          \<and> (WIFI_LIST K \<noteq> [] \<longrightarrow> \<not> WiFi_connected E (tick (snd ?r) - 1))"
    using connectWiFi_loop_spec [of E "WIFI_LIST K" ?s0] by blast
  show ?thesis
  proof (cases "fst ?r")
    case True
    then have s': "?s' = snd ?r"
      by (cases ?r) (simp add: connectWiFi_def Let_def)
    obtain m pre where m: "m < length (WIFI_LIST K)" "begins evs = take (Suc m) (WIFI_LIST K)"
      and pre: "evs = pre @ time_config" "filter is_ConfigTime pre = []"
      and c: "wifiConnected (snd ?r)" "WiFi_connected E (tick (snd ?r) - 1)"
      using ih(4) True by blast
    have tr: "trace ?s' = trace s @ SerialPrintln ?start # evs"
      using ih(1) by (simp add: s' prim_defs)
    have em: "emitted s ?s' = SerialPrintln ?start # evs"
      using tr by simp
    have ne: "WIFI_LIST K \<noteq> []" using m(1) by auto
    have a: "\<exists>m < length (WIFI_LIST K). begins (emitted s ?s') = take (Suc m) (WIFI_LIST K)"
      using m by (auto simp: em)
    have b: "\<exists>pre. emitted s ?s' = pre @ time_config \<and> filter is_ConfigTime pre = []"
      by (rule exI [of _ "SerialPrintln ?start # pre"]) (simp add: em pre)
    have p: "polls_ok 0 (emitted s ?s')" using ih(2) by (simp add: em)
    have t: "timeValid ?s' = timeValid s" using ih(3) by (simp add: s' prim_defs)
    have w: "wifiConnected ?s'" "WiFi_connected E (tick ?s' - 1)" using c by (simp_all add: s')
    show ?thesis
      unfolding Let_def using a b p t w ne by blast
  next
    case False
    then have s': "?s' = (Serial_println ?none (snd ?r))\<lparr>wifiConnected := False\<rparr>"
      by (cases ?r) (simp add: connectWiFi_def Let_def)
    have g: "begins evs = WIFI_LIST K" "filter is_ConfigTime evs = []"
         "WIFI_LIST K \<noteq> [] \<longrightarrow> \<not> WiFi_connected E (tick (snd ?r) - 1)"
      using ih(5) False by blast+
    have tr: "trace ?s' = trace s @ SerialPrintln ?start # evs @ [SerialPrintln ?none]"
      using ih(1) by (simp add: s' prim_defs)
    have em: "emitted s ?s' = SerialPrintln ?start # evs @ [SerialPrintln ?none]"
      using tr by simp
    have pk: "\<And>c xs. polls_ok c xs \<Longrightarrow> polls_ok c (xs @ [SerialPrintln ?none])"
    proof -
      fix c xs show "polls_ok c xs \<Longrightarrow> polls_ok c (xs @ [SerialPrintln ?none])"
        by (induction c xs rule: polls_ok.induct) (simp_all split: if_splits)
    qed
    have p: "polls_ok 0 (emitted s ?s')" using ih(2) pk [of 0 evs] by (simp add: em)
    have t: "timeValid ?s' = timeValid s" using ih(3) by (simp add: s' prim_defs)
    have w: "\<not> wifiConnected ?s'" by (simp add: s')
    have k: "tick ?s' = tick (snd ?r)" by (simp add: s' prim_defs)
    have a: "begins (emitted s ?s') = WIFI_LIST K" "filter is_ConfigTime (emitted s ?s') = []"
      using g(1,2) by (simp_all add: em)
    have g3: "WIFI_LIST K \<noteq> [] \<longrightarrow> \<not> WiFi_connected E (tick ?s' - 1)"
      using g(3) by (simp only: k)
    show ?thesis
      unfolding Let_def using a p t w g3 by blast
  qed
qed

text \<open>
  The polling loop, exactly: from tick \<open>t\<close> with \<open>m\<close> attempts left it makes \<open>rounds E t m\<close>
  rounds, which is at most \<open>m\<close>, every status read before the last answers not connected,
  and if fewer than \<open>m\<close> rounds are made the read that ends the loop answers connected.
\<close>

lemma rounds_char:
  "rounds E t m \<le> m
   \<and> (\<forall>j < rounds E t m. \<not> WiFi_connected E (t + j))
   \<and> (rounds E t m < m \<longrightarrow> WiFi_connected E (t + rounds E t m))"
proof (induction m arbitrary: t)
  case 0
  show ?case by simp
next
  case (Suc m)
  show ?case
  proof (cases "WiFi_connected E t")
    case True
    then show ?thesis by simp
  next
    case False
    have a: "\<forall>j < Suc (rounds E (Suc t) m). \<not> WiFi_connected E (t + j)"
    proof (intro allI impI)
      fix j assume j: "j < Suc (rounds E (Suc t) m)"
      show "\<not> WiFi_connected E (t + j)"
      proof (cases j)
        case 0
        then show ?thesis using False by simp
      next
        case (Suc i)
        then have "i < rounds E (Suc t) m" using j by simp
        then have "\<not> WiFi_connected E (Suc t + i)" using Suc.IH [of "Suc t"] by blast
        then show ?thesis using Suc by simp
      qed
    qed
    show ?thesis
      using False a Suc.IH [of "Suc t"] by simp
  qed
qed

lemma WiFi_poll_exact:
  "tick (WiFi_poll E attempts s) =
     tick s + rounds E (tick s) (nat (WIFI_MAX_ATTEMPTS - attempts)) + 1
   \<and> trace (WiFi_poll E attempts s) =
     trace s @ concat (replicate (rounds E (tick s) (nat (WIFI_MAX_ATTEMPTS - attempts))) poll_round)"
proof (induction E attempts s rule: WiFi_poll.induct)
  case (1 E attempts s)
  show ?case
  proof (cases "\<not> fst (WiFi_status E s) \<and> attempts < WIFI_MAX_ATTEMPTS")
    case True
    let ?s' = "Serial_print ''.'' (delay 500 (snd (WiFi_status E s)))"
    have eq: "WiFi_poll E attempts s = WiFi_poll E (attempts + 1) ?s'"
      using True by (subst WiFi_poll.simps) simp
    have m: "nat (WIFI_MAX_ATTEMPTS - attempts) = Suc (nat (WIFI_MAX_ATTEMPTS - (attempts + 1)))"
      using True by linarith
    have c: "\<not> WiFi_connected E (tick s)" using True by (simp add: WiFi_status_def)
    have t': "tick ?s' = Suc (tick s)" "trace ?s' = trace s @ poll_round"
      by (simp_all add: prim_defs WiFi_status_def poll_round_def)
    show ?thesis
      using 1 [OF True] by (simp add: eq m c t')
  next
    case False
    then have eq: "WiFi_poll E attempts s = snd (WiFi_status E s)"
      by (auto simp: WiFi_poll.simps [of E attempts s])
    have "rounds E (tick s) (nat (WIFI_MAX_ATTEMPTS - attempts)) = 0"
    proof (cases "attempts < WIFI_MAX_ATTEMPTS")
      case True
      then have "WiFi_connected E (tick s)" using False by (simp add: WiFi_status_def)
      moreover obtain m where "nat (WIFI_MAX_ATTEMPTS - attempts) = Suc m"
        using True by (cases "nat (WIFI_MAX_ATTEMPTS - attempts)") auto
      ultimately show ?thesis by simp
    next
      case False
      then show ?thesis by simp
    qed
    then show ?thesis by (simp add: eq WiFi_status_def)
  qed
qed

lemma WiFi_poll_flags:
  "wifiConnected (WiFi_poll E attempts s) = wifiConnected s"
  "timeValid (WiFi_poll E attempts s) = timeValid s"
  using WiFi_poll_spec [where attempts = attempts and E = E and s = s] by auto

lemma first_success_Cons:
  "first_success (a # os) = (if att_ok a then 0 else Suc (first_success os))"
  by (simp add: first_success_def)

lemma connectWiFi_loop_step:
  fixes E s ssid senha rest
  defines "n \<equiv> rounds E (tick s) (nat WIFI_MAX_ATTEMPTS)"
  defines "chk \<equiv> tick s + n + 1"
  shows "\<exists>s3. tick s3 = Suc chk
     \<and> trace s3 = trace s @ [SerialPrint ''Tentando conectar em: '', SerialPrintln ssid,
                           WiFiBegin ssid senha] @ concat (replicate n poll_round)
     \<and> wifiConnected s3 = wifiConnected s \<and> timeValid s3 = timeValid s
     \<and> connectWiFi_loop E ((ssid, senha) # rest) s =
         (if WiFi_connected E chk
          then (True, delay 2000
                   (emit (ConfigTime GMT_OFFSET_SEC DAYLIGHT_OFFSET_SEC NTP_SERVER)
                     ((Serial_println ssid (Serial_print connect_ok_log s3))
                      \<lparr>wifiConnected := True\<rparr>)))
          else connectWiFi_loop E rest (Serial_println connect_fail_log s3))"
proof -
  let ?s1 = "Serial_println ssid (Serial_print ''Tentando conectar em: '' s)"
  let ?b = "emit (WiFiBegin ssid senha) ?s1"
  let ?s2 = "WiFi_poll E 0 ?b"
  let ?s3 = "?s2\<lparr>tick := Suc (tick ?s2)\<rparr>"
  have tb: "tick ?b = tick s" by (simp add: prim_defs)
  have p: "tick ?s2 = chk"
    "trace ?s2 = trace ?b @ concat (replicate n poll_round)"
    using WiFi_poll_exact [of E 0 ?b] by (simp_all add: prim_defs n_def chk_def)
  have 1: "tick ?s3 = Suc chk" by (simp add: p)
  have 2: "trace ?s3 = trace s @ [SerialPrint ''Tentando conectar em: '', SerialPrintln ssid,
                           WiFiBegin ssid senha] @ concat (replicate n poll_round)"
    by (simp add: p(2)) (simp add: prim_defs)
  have 3: "wifiConnected ?s3 = wifiConnected s" "timeValid ?s3 = timeValid s"
    by (simp_all add: WiFi_poll_flags prim_defs)
  have 4: "connectWiFi_loop E ((ssid, senha) # rest) s =
         (if WiFi_connected E chk
          then (True, delay 2000
                   (emit (ConfigTime GMT_OFFSET_SEC DAYLIGHT_OFFSET_SEC NTP_SERVER)
                     ((Serial_println ssid (Serial_print connect_ok_log ?s3))
                      \<lparr>wifiConnected := True\<rparr>)))
          else connectWiFi_loop E rest (Serial_println connect_fail_log ?s3))"
    by (simp add: connectWiFi_loop.simps(2) Let_def WiFi_status_def connect_ok_log_def
          connect_fail_log_def p(1))
  from 1 2 3 4 show ?thesis by blast
qed

lemma connectWiFi_loop_exact:
  "fst (connectWiFi_loop E cands s) = (first_success (outcomes E (tick s) cands) < length cands)
   \<and> wifiConnected (snd (connectWiFi_loop E cands s)) =
       (first_success (outcomes E (tick s) cands) < length cands \<or> wifiConnected s)
   \<and> timeValid (snd (connectWiFi_loop E cands s)) = timeValid s
   \<and> tick (snd (connectWiFi_loop E cands s)) =
       end_tick (tick s)
         (take (Suc (first_success (outcomes E (tick s) cands))) (outcomes E (tick s) cands))
   \<and> trace (snd (connectWiFi_loop E cands s)) =
       trace s @ concat (map attempt_events
         (zip (take (Suc (first_success (outcomes E (tick s) cands))) cands)
              (take (Suc (first_success (outcomes E (tick s) cands)))
                 (outcomes E (tick s) cands))))"
proof (induction cands arbitrary: s)
  case Nil
  show ?case by (simp add: first_success_def end_tick_def)
next
  case (Cons p rest)
  obtain ssid senha where p: "p = (ssid, senha)" by (cases p)
  define n where "n = rounds E (tick s) (nat WIFI_MAX_ATTEMPTS)"
  define chk where "chk = tick s + n + 1"
  define a where "a = \<lparr>att_polls = n, att_ok = WiFi_connected E chk, att_end = Suc chk\<rparr>"
  have os: "outcomes E (tick s) ((ssid, senha) # rest) = a # outcomes E (Suc chk) rest"
    by (simp add: Let_def a_def chk_def n_def)
  obtain s3 where s3: "tick s3 = Suc chk"
     "trace s3 = trace s @ [SerialPrint ''Tentando conectar em: '', SerialPrintln ssid,
                           WiFiBegin ssid senha] @ concat (replicate n poll_round)"
     "wifiConnected s3 = wifiConnected s" "timeValid s3 = timeValid s"
     and eq: "connectWiFi_loop E ((ssid, senha) # rest) s =
         (if WiFi_connected E chk
          then (True, delay 2000
                   (emit (ConfigTime GMT_OFFSET_SEC DAYLIGHT_OFFSET_SEC NTP_SERVER)
                     ((Serial_println ssid (Serial_print connect_ok_log s3))
                      \<lparr>wifiConnected := True\<rparr>)))
          else connectWiFi_loop E rest (Serial_println connect_fail_log s3))"
    using connectWiFi_loop_step [where E = E and s = s and ssid = ssid and senha = senha
        and rest = rest]
    unfolding n_def chk_def by blast
  show ?case
  proof (cases "WiFi_connected E chk")
    case True
    then have ok: "att_ok a" "att_polls a = n" "att_end a = Suc chk" by (simp_all add: a_def)
    show ?thesis
      unfolding p os
      by (simp add: eq True first_success_Cons ok end_tick_def prim_defs s3 time_config_def)
  next
    case False
    then have ok: "\<not> att_ok a" "att_polls a = n" "att_end a = Suc chk" by (simp_all add: a_def)
    let ?s4 = "Serial_println connect_fail_log s3"
    have t4: "tick ?s4 = Suc chk" "trace ?s4 = trace s3 @ [SerialPrintln connect_fail_log]"
      "wifiConnected ?s4 = wifiConnected s" "timeValid ?s4 = timeValid s"
      by (simp_all add: prim_defs s3)
    show ?thesis
      unfolding p os
      using Cons.IH [of ?s4]
      by (simp add: eq False first_success_Cons ok end_tick_def t4 s3(2))
  qed
qed

lemma length_outcomes [simp]: "length (outcomes E t cs) = length cs"
  by (induction cs arbitrary: t) (simp_all add: Let_def)

lemma rounds_le: "rounds E t m \<le> m"
  using rounds_char [of E t m] by blast

lemma outcomes_polls_le: "a \<in> set (outcomes E t cs) \<Longrightarrow> att_polls a \<le> nat WIFI_MAX_ATTEMPTS"
  by (induction cs arbitrary: t) (auto simp: Let_def rounds_le)

lemma begins_time_config [simp]: "begins time_config = []"
  by (simp add: time_config_def)

lemma begins_run: "begins (concat (map attempt_events cas)) = map fst cas"
  by (induction cas) auto

lemma first_success_first:
  "(\<forall>j < first_success os. \<not> att_ok (os ! j))
   \<and> (first_success os < length os \<longrightarrow> att_ok (os ! first_success os))"
proof (induction os)
  case Nil
  show ?case by (simp add: first_success_def)
next
  case (Cons a os)
  then show ?case by (auto simp: first_success_Cons less_Suc_eq_0_disj)
qed

lemma connectWiFi_exact:
  "wifiConnected (connectWiFi E K s) =
     (first_success (outcomes E (tick s) (WIFI_LIST K)) < length (WIFI_LIST K))
   \<and> timeValid (connectWiFi E K s) = timeValid s
   \<and> tick (connectWiFi E K s) =
       end_tick (tick s)
         (take (Suc (first_success (outcomes E (tick s) (WIFI_LIST K))))
            (outcomes E (tick s) (WIFI_LIST K)))
   \<and> trace (connectWiFi E K s) =
       trace s @ SerialPrintln connect_start_log
         # concat (map attempt_events
             (zip (take (Suc (first_success (outcomes E (tick s) (WIFI_LIST K)))) (WIFI_LIST K))
                  (take (Suc (first_success (outcomes E (tick s) (WIFI_LIST K))))
                     (outcomes E (tick s) (WIFI_LIST K)))))
         @ (if first_success (outcomes E (tick s) (WIFI_LIST K)) < length (WIFI_LIST K) then []
            else [SerialPrintln connect_none_log])"
proof -
  let ?s0 = "(Serial_println connect_start_log s)\<lparr>wifiConnected := False\<rparr>"
  let ?r = "connectWiFi_loop E (WIFI_LIST K) ?s0"
  have t0: "tick ?s0 = tick s" "trace ?s0 = trace s @ [SerialPrintln connect_start_log]"
    "wifiConnected ?s0 = False" "timeValid ?s0 = timeValid s"
    by (simp_all add: prim_defs)
  note ex = connectWiFi_loop_exact [of E "WIFI_LIST K" ?s0, unfolded t0]
  have c: "connectWiFi E K s =
            (if fst ?r then snd ?r
             else (Serial_println connect_none_log (snd ?r))\<lparr>wifiConnected := False\<rparr>)"
    by (cases ?r) (simp add: connectWiFi_def Let_def connect_start_log_def connect_none_log_def)
  show ?thesis
  proof (cases "fst ?r")
    case True
    then show ?thesis using ex by (simp add: c)
  next
    case False
    then show ?thesis using ex by (simp add: c prim_defs)
  qed
qed

text \<open>
  C7. A run of \<open>connectWiFi\<close> (the variant with a list of credentials) from tick \<open>t\<close>.
  Let \<open>os\<close> be the attempts that the candidates would make one after the other, each begun
  where the one before it has failed: its number of polling rounds (at most
  \<open>WIFI_MAX_ATTEMPTS\<close>, \<open>rounds\<close>), whether the status check after the polling answers
  connected, and the tick after that check. Let \<open>k\<close> be the number of attempts that fail before
  the first that succeeds. Then the run ends with \<open>wifiConnected\<close> true exactly if \<open>k\<close> is
  less than the number of candidates, that is if some candidate succeeds; the associations
  begun are exactly the first \<open>k + 1\<close> candidates, in list order, so none after the first
  success; the events of the run are the opening log line, then for each of these candidates
  its two log lines, its \<open>WiFi.begin\<close>, its polling rounds (a delay of 500 ms and a dot each),
  and either the failure line or, for the one that succeeds, the success lines, the
  configuration of the time source and the wait of 2 s; then, if no candidate has succeeded
  and only then, the closing log line. The run ends at the tick after the last check made,
  and \<open>timeValid\<close> is not touched. In particular no association is followed by more than
  \<open>WIFI_MAX_ATTEMPTS\<close> polling delays, the time source is configured once, at the end, if the
  flag ends true and never if it ends false, and the flag ends true exactly if the list is not
  empty and the last status read answered connected.
\<close>

theorem connectWiFi_association:
  "let cands = WIFI_LIST K; os = outcomes E (tick s) cands; k = first_success os;
       s' = connectWiFi E K s; evs = emitted s s'
   in (\<forall>a \<in> set os. att_polls a \<le> nat WIFI_MAX_ATTEMPTS)
      \<and> (\<forall>j < k. \<not> att_ok (os ! j))
      \<and> (k < length cands \<longrightarrow> att_ok (os ! k))
      \<and> (wifiConnected s' \<longleftrightarrow> k < length cands)
      \<and> begins evs = take (Suc k) cands
      \<and> evs = SerialPrintln connect_start_log
                # concat (map attempt_events (zip (take (Suc k) cands) (take (Suc k) os)))
                @ (if k < length cands then [] else [SerialPrintln connect_none_log])
      \<and> tick s' = end_tick (tick s) (take (Suc k) os)
      \<and> timeValid s' = timeValid s
      \<and> polls_ok 0 evs
      \<and> (wifiConnected s' \<longrightarrow> (\<exists>pre. evs = pre @ time_config \<and> filter is_ConfigTime pre = []))
      \<and> (\<not> wifiConnected s' \<longrightarrow> filter is_ConfigTime evs = [])
      \<and> (wifiConnected s' \<longleftrightarrow> cands \<noteq> [] \<and> WiFi_connected E (tick s' - 1))"
proof -
  let ?cands = "WIFI_LIST K"
  let ?os = "outcomes E (tick s) ?cands"
  let ?k = "first_success ?os"
  let ?s' = "connectWiFi E K s"
  let ?run = "concat (map attempt_events (zip (take (Suc ?k) ?cands) (take (Suc ?k) ?os)))"
  note ex = connectWiFi_exact [of E K s]
  have em: "emitted s ?s' = SerialPrintln connect_start_log # ?run
              @ (if ?k < length ?cands then [] else [SerialPrintln connect_none_log])"
    using ex by simp
  have 1: "\<forall>a \<in> set ?os. att_polls a \<le> nat WIFI_MAX_ATTEMPTS"
    using outcomes_polls_le by blast
  have 2: "\<forall>j < ?k. \<not> att_ok (?os ! j)" "?k < length ?cands \<longrightarrow> att_ok (?os ! ?k)"
    using first_success_first [of ?os] by simp_all
  have z: "map fst (zip (take (Suc ?k) ?cands) (take (Suc ?k) ?os)) = take (Suc ?k) ?cands"
    by (rule map_fst_zip) simp
  have 3: "begins (emitted s ?s') = take (Suc ?k) ?cands"
    by (simp add: em begins_run z)
  note old = connectWiFi_run_props [of E K s, unfolded Let_def]
  show ?thesis
    unfolding Let_def
    using 1 2 3 em ex old by blast
qed

lemma association_runs:
  "outcomes env_second (tick state0) (WIFI_LIST chaves0) =
     [\<lparr>att_polls = 15, att_ok = False, att_end = 17\<rparr>,
      \<lparr>att_polls = 3, att_ok = True, att_end = 22\<rparr>]"
  "first_success (outcomes env_second (tick state0) (WIFI_LIST chaves0)) = 1"
  "outcomes env0 (tick state0) (WIFI_LIST chaves0) =
     [\<lparr>att_polls = 0, att_ok = True, att_end = 2\<rparr>,
      \<lparr>att_polls = 0, att_ok = True, att_end = 4\<rparr>]"
  "first_success (outcomes env0 (tick state0) (WIFI_LIST chaves0)) = 0"
  by code_simp+

theorem connectWiFi_association_witness:
  "first_success (outcomes env_second (tick state0) (WIFI_LIST chaves0)) = 1
   \<and> \<not> att_ok (outcomes env_second (tick state0) (WIFI_LIST chaves0) ! 0)
   \<and> att_ok (outcomes env_second (tick state0) (WIFI_LIST chaves0) ! 1)
   \<and> wifiConnected (connectWiFi env_second chaves0 state0)
   \<and> begins (emitted state0 (connectWiFi env_second chaves0 state0)) =
       [(''casa'', ''1234''), (''lab'', ''abcd'')]
   \<and> tick (connectWiFi env_second chaves0 state0) = 22
   \<and> first_success (outcomes env0 (tick state0) (WIFI_LIST chaves0)) = 0
   \<and> att_ok (outcomes env0 (tick state0) (WIFI_LIST chaves0) ! 0)
   \<and> wifiConnected (connectWiFi env0 chaves0 state0)
   \<and> begins (emitted state0 (connectWiFi env0 chaves0 state0)) = [(''casa'', ''1234'')]
   \<and> tick (connectWiFi env0 chaves0 state0) = 2"
proof -
  note a = connectWiFi_association [where E = env_second and K = chaves0 and s = state0,
      unfolded Let_def association_runs(2)]
  note b = connectWiFi_association [where E = env0 and K = chaves0 and s = state0,
      unfolded Let_def association_runs(4)]
  have l: "length (WIFI_LIST chaves0) = 2" "WIFI_LIST chaves0 = [(''casa'', ''1234''), (''lab'', ''abcd'')]"
    by (simp_all add: chaves0_def)
  have a1: "wifiConnected (connectWiFi env_second chaves0 state0)"
    using a [THEN conjunct2, THEN conjunct2, THEN conjunct2, THEN conjunct1] by (simp add: l(1))
  have a2: "begins (emitted state0 (connectWiFi env_second chaves0 state0)) =
       [(''casa'', ''1234''), (''lab'', ''abcd'')]"
    using a [THEN conjunct2, THEN conjunct2, THEN conjunct2, THEN conjunct2, THEN conjunct1]
    by (simp add: l(2))
  have a3: "tick (connectWiFi env_second chaves0 state0) = 22"
    using a [THEN conjunct2, THEN conjunct2, THEN conjunct2, THEN conjunct2, THEN conjunct2,
             THEN conjunct2, THEN conjunct1]
    by (simp add: association_runs(1) end_tick_def)
  have b1: "wifiConnected (connectWiFi env0 chaves0 state0)"
    using b [THEN conjunct2, THEN conjunct2, THEN conjunct2, THEN conjunct1] by (simp add: l(1))
  have b2: "begins (emitted state0 (connectWiFi env0 chaves0 state0)) = [(''casa'', ''1234'')]"
    using b [THEN conjunct2, THEN conjunct2, THEN conjunct2, THEN conjunct2, THEN conjunct1]
    by (simp add: l(2))
  have b3: "tick (connectWiFi env0 chaves0 state0) = 2"
    using b [THEN conjunct2, THEN conjunct2, THEN conjunct2, THEN conjunct2, THEN conjunct2,
             THEN conjunct2, THEN conjunct1]
    by (simp add: association_runs(3) end_tick_def)
  have o: "\<not> att_ok (outcomes env_second (tick state0) (WIFI_LIST chaves0) ! 0)"
    "att_ok (outcomes env_second (tick state0) (WIFI_LIST chaves0) ! 1)"
    "att_ok (outcomes env0 (tick state0) (WIFI_LIST chaves0) ! 0)"
    by (simp_all add: association_runs)
  from association_runs(2,4) o a1 a2 a3 b1 b2 b3 show ?thesis by blast
qed

section \<open>The main loop\<close>

lemma updateLocalTime_simps [simp]:
  "fst (updateLocalTime E s) = fst (localTime E (tick s))"
  "timeValid (snd (updateLocalTime E s)) = fst (localTime E (tick s))"
  "wifiConnected (snd (updateLocalTime E s)) = wifiConnected s"
  "tick (snd (updateLocalTime E s)) = Suc (tick s)"
  "trace (snd (updateLocalTime E s)) = trace s @ time_log (localTime E (tick s))"
  by (cases "localTime E (tick s)"; simp add: updateLocalTime_def getLocalTime_def prim_defs)+

lemma http_urls_append [simp]: "http_urls (xs @ ys) = http_urls xs @ http_urls ys"
  by (induction xs rule: http_urls.induct) simp_all

lemma http_urls_blink [simp]: "http_urls (concat (replicate n (blink_cycle d))) = []"
  by (induction n) (simp_all add: blink_cycle_def)

lemma http_urls_send [simp]:
  "http_urls (send_events E K luz solo umidAr temp bomba agua t) =
     (if WiFi_connected E t then [telemetry_url E K luz solo umidAr temp bomba agua] else [])"
  by (simp add: send_events_def)

lemma http_urls_time_log [simp]: "http_urls (time_log x) = []"
  by (cases x) simp

lemma branches_urls:
  "\<exists>evs. trace (snd (handleWateringLogic_branches soil haAgua hour lightValue s)) = trace s @ evs
     \<and> http_urls evs = []"
  by (simp add: handleWateringLogic_branches_def Let_def prim_defs)

lemma printSensorData_simps:
  "\<exists>evs. trace (printSensorData l so h t w s) = trace s @ evs \<and> http_urls evs = []"
  "tick (printSensorData l so h t w s) = tick s"
  "wifiConnected (printSensorData l so h t w s) = wifiConnected s"
  "timeValid (printSensorData l so h t w s) = timeValid s"
  by (simp_all add: printSensorData_def prim_defs)

lemma readSensors_simps:
  "fst (readSensors E s) =
     \<lparr>snap_light = analogIn E LDR_PIN (tick s), snap_soil = analogIn E SOIL_PIN (tick s + 1),
      snap_humidity = dhtHumidity E (tick s + 2), snap_temperature = dhtTemperature E (tick s + 3),
      snap_haAgua = (digitalIn E BOIA_PIN (tick s + 4) = LOW)\<rparr>"
  "snd (readSensors E s) = s\<lparr>tick := tick s + 5\<rparr>"
  by (simp_all add: readSensors_def read_defs eval_nat_numeral)

lemma loop_unfold:
  "loop E K s =
     (let s1 = loop_reconnect E K s;
          s2 = (if wifiConnected s1 \<and> \<not> timeValid s1 then snd (updateLocalTime E s1) else s1);
          snap = fst (readSensors E s2);
          s3 = printSensorData (snap_light snap) (snap_soil snap) (snap_humidity snap)
                 (snap_temperature snap) (snap_haAgua snap) (snd (readSensors E s2));
          s4 = handleWateringLogic E K (snap_soil snap) (snap_haAgua snap)
                 (snd (fst (getLocalTime E s3))) (snap_light snap) (snd (getLocalTime E s3))
      in delay LOOP_DELAY_MS (snd (updateLocalTime E s4)))"
  by (simp add: loop_def loop_act_def loop_resync_def Let_def split: prod.splits)

lemma env0_facts:
  "WiFi_connected env0 t" "analogIn env0 LDR_PIN t = 2000" "analogIn env0 SOIL_PIN t = 1500"
  "digitalIn env0 BOIA_PIN t = LOW" "localTime env0 t = (True, 20)"
  "dhtTemperature env0 t = 0x41C80000"
  "t < 4 \<Longrightarrow> dhtHumidity env0 t = 0x42480000" "4 \<le> t \<Longrightarrow> dhtHumidity env0 t = 0x42700000"
  by (simp_all add: env0_def LDR_PIN_def SOIL_PIN_def)

text \<open>
  C8. \<open>updateLocalTime\<close> returns, and leaves in \<open>timeValid\<close>, the success of its one read of
  the clock. A cycle of \<open>loop\<close> is: the reconnection check; then \<open>updateLocalTime\<close> if
  \<open>wifiConnected\<close> holds and \<open>timeValid\<close> does not (and nothing otherwise); then the sensor
  reads, the printing, the read of the hour and \<open>handleWateringLogic\<close>; then \<open>updateLocalTime\<close>
  again, whatever the flags, and the final delay. So at the end of a cycle \<open>timeValid\<close> is the
  success of that last read.
\<close>

theorem resync_every_cycle:
  "fst (updateLocalTime E s) = fst (localTime E (tick s))
   \<and> timeValid (snd (updateLocalTime E s)) = fst (localTime E (tick s))
   \<and> (let s1 = loop_reconnect E K s;
          s2 = (if wifiConnected s1 \<and> \<not> timeValid s1 then snd (updateLocalTime E s1) else s1);
          snap = fst (readSensors E s2);
          s3 = printSensorData (snap_light snap) (snap_soil snap) (snap_humidity snap)
                 (snap_temperature snap) (snap_haAgua snap) (snd (readSensors E s2));
          s4 = handleWateringLogic E K (snap_soil snap) (snap_haAgua snap)
                 (snd (fst (getLocalTime E s3))) (snap_light snap) (snd (getLocalTime E s3))
      in loop E K s = delay LOOP_DELAY_MS (snd (updateLocalTime E s4))
         \<and> timeValid (loop E K s) = fst (localTime E (tick s4))
         \<and> emitted s1 s2 =
             (if wifiConnected s1 \<and> \<not> timeValid s1 then time_log (localTime E (tick s1)) else [])
         \<and> emitted s4 (loop E K s) = time_log (localTime E (tick s4)) @ [Delay LOOP_DELAY_MS])"
proof -
  have "loop E K s =
     (let s1 = loop_reconnect E K s;
          s2 = (if wifiConnected s1 \<and> \<not> timeValid s1 then snd (updateLocalTime E s1) else s1);
          snap = fst (readSensors E s2);
          s3 = printSensorData (snap_light snap) (snap_soil snap) (snap_humidity snap)
                 (snap_temperature snap) (snap_haAgua snap) (snd (readSensors E s2));
          s4 = handleWateringLogic E K (snap_soil snap) (snap_haAgua snap)
                 (snd (fst (getLocalTime E s3))) (snap_light snap) (snd (getLocalTime E s3))
      in delay LOOP_DELAY_MS (snd (updateLocalTime E s4)))"
    by (rule loop_unfold)
  then show ?thesis
    by (simp add: Let_def prim_defs)
qed

lemma cycle_up:
  "loop_reconnect env0 chaves0 state_up = state_up\<lparr>tick := 1\<rparr>"
  by (simp add: loop_reconnect_def WiFi_status_def env0_def state_up_def state0_def)

theorem resync_every_cycle_witness:
  "wifiConnected (loop_reconnect env0 chaves0 state_up)
   \<and> \<not> timeValid (loop_reconnect env0 chaves0 state_up)
   \<and> timeValid (snd (updateLocalTime env0 (loop_reconnect env0 chaves0 state_up)))
   \<and> timeValid (loop env0 chaves0 state_up)"
proof -
  have f: "wifiConnected (loop_reconnect env0 chaves0 state_up)"
    "\<not> timeValid (loop_reconnect env0 chaves0 state_up)"
    unfolding cycle_up by (simp_all add: state_up_def state0_def)
  note th = resync_every_cycle [where E = env0 and K = chaves0 and s = state_up,
      unfolded Let_def]
  note th1 = resync_every_cycle [where E = env0 and K = chaves0
        and s = "loop_reconnect env0 chaves0 state_up", THEN conjunct2, THEN conjunct1]
  have a: "timeValid (snd (updateLocalTime env0 (loop_reconnect env0 chaves0 state_up)))"
    using th1 by (simp only: env0_facts fst_conv)
  have b: "timeValid (loop env0 chaves0 state_up)"
    using th [THEN conjunct2, THEN conjunct2, THEN conjunct2, THEN conjunct1]
    by (simp only: env0_facts fst_conv)
  show ?thesis
    using f a b by blast
qed

lemma hWL_urls:
  "\<exists>evs. trace (handleWateringLogic E K soil haAgua hour lightValue s) = trace s @ evs
     \<and> http_urls evs =
         (if WiFi_connected E (tick s + 2)
          then [telemetry_url E K lightValue soil (dhtHumidity E (tick s))
                  (dhtTemperature E (Suc (tick s)))
                  (if pump_branch soil haAgua hour lightValue then 1 else 0) (bool_int haAgua)]
          else [])"
proof -
  obtain evs where e:
    "trace (snd (handleWateringLogic_branches soil haAgua hour lightValue s)) = trace s @ evs"
    "http_urls evs = []"
    using branches_urls [of soil haAgua hour lightValue s] by blast
  show ?thesis
    by (rule exI [of _ "evs @ send_events E K lightValue soil (dhtHumidity E (tick s))
                  (dhtTemperature E (Suc (tick s)))
                  (if pump_branch soil haAgua hour lightValue then 1 else 0) (bool_int haAgua)
                  (tick s + 2)"])
       (simp add: hWL_eq e)
qed

lemma loop_act_urls:
  "\<exists>evs. trace (loop_act E K snap s) = trace s @ evs
     \<and> http_urls evs =
         (if WiFi_connected E (tick s + 3)
          then [telemetry_url E K (snap_light snap) (snap_soil snap) (dhtHumidity E (tick s + 1))
                  (dhtTemperature E (tick s + 2))
                  (if pump_branch (snap_soil snap) (snap_haAgua snap) (snd (localTime E (tick s)))
                        (snap_light snap) then 1 else 0)
                  (bool_int (snap_haAgua snap))]
          else [])"
proof -
  let ?s1 = "printSensorData (snap_light snap) (snap_soil snap) (snap_humidity snap)
                 (snap_temperature snap) (snap_haAgua snap) s"
  obtain evs1 where e1: "trace ?s1 = trace s @ evs1" "http_urls evs1 = []"
    using printSensorData_simps(1) by blast
  have t1: "tick ?s1 = tick s" by (rule printSensorData_simps(2))
  let ?hour = "snd (localTime E (tick s))"
  let ?s2 = "?s1\<lparr>tick := Suc (tick s)\<rparr>"
  let ?s3 = "handleWateringLogic E K (snap_soil snap) (snap_haAgua snap) ?hour (snap_light snap) ?s2"
  obtain evs2 where e2: "trace ?s3 = trace ?s2 @ evs2"
    "http_urls evs2 =
         (if WiFi_connected E (tick ?s2 + 2)
          then [telemetry_url E K (snap_light snap) (snap_soil snap) (dhtHumidity E (tick ?s2))
                  (dhtTemperature E (Suc (tick ?s2)))
                  (if pump_branch (snap_soil snap) (snap_haAgua snap) ?hour (snap_light snap)
                   then 1 else 0) (bool_int (snap_haAgua snap))]
          else [])"
    using hWL_urls [of E K "snap_soil snap" "snap_haAgua snap" ?hour "snap_light snap" ?s2]
    by blast
  have la: "loop_act E K snap s = delay LOOP_DELAY_MS (snd (updateLocalTime E ?s3))"
    by (cases "localTime E (tick s)") (simp add: loop_act_def Let_def getLocalTime_def t1)
  show ?thesis
    by (rule exI [of _ "evs1 @ evs2 @ time_log (localTime E (tick ?s3)) @ [Delay LOOP_DELAY_MS]"])
       (simp add: la prim_defs e1 e2 eval_nat_numeral)
qed

lemma loop_urls:
  "\<exists>evs. trace (loop E K s) = trace (loop_resync E (loop_reconnect E K s)) @ evs
     \<and> http_urls evs =
        (let t = tick (loop_resync E (loop_reconnect E K s));
             l = analogIn E LDR_PIN t; so = analogIn E SOIL_PIN (t + 1);
             w = (digitalIn E BOIA_PIN (t + 4) = LOW)
         in if WiFi_connected E (t + 8)
            then [telemetry_url E K l so (dhtHumidity E (t + 6)) (dhtTemperature E (t + 7))
                    (if pump_branch so w (snd (localTime E (t + 5))) l then 1 else 0) (bool_int w)]
            else [])"
proof -
  let ?s2 = "loop_resync E (loop_reconnect E K s)"
  let ?snap = "fst (readSensors E ?s2)"
  let ?s3 = "?s2\<lparr>tick := tick ?s2 + 5\<rparr>"
  have l: "loop E K s = loop_act E K ?snap ?s3"
    by (simp add: loop_def readSensors_simps(2) split: prod.splits)
       (metis readSensors_simps(2) snd_conv)
  obtain evs where e: "trace (loop_act E K ?snap ?s3) = trace ?s3 @ evs"
     "http_urls evs =
         (if WiFi_connected E (tick ?s3 + 3)
          then [telemetry_url E K (snap_light ?snap) (snap_soil ?snap) (dhtHumidity E (tick ?s3 + 1))
                  (dhtTemperature E (tick ?s3 + 2))
                  (if pump_branch (snap_soil ?snap) (snap_haAgua ?snap) (snd (localTime E (tick ?s3)))
                        (snap_light ?snap) then 1 else 0)
                  (bool_int (snap_haAgua ?snap))]
          else [])"
    using loop_act_urls [of E K ?snap ?s3] by blast
  have tr: "trace (loop E K s) = trace ?s2 @ evs"
    using e(1) by (simp add: l)
  have tk: "tick ?s3 + 3 = tick ?s2 + 8" "tick ?s3 + 1 = tick ?s2 + 6" "tick ?s3 + 2 = tick ?s2 + 7"
    "tick ?s3 = tick ?s2 + 5"
    by simp_all
  have "http_urls evs =
        (let t = tick (loop_resync E (loop_reconnect E K s));
             l = analogIn E LDR_PIN t; so = analogIn E SOIL_PIN (t + 1);
             w = (digitalIn E BOIA_PIN (t + 4) = LOW)
         in if WiFi_connected E (t + 8)
            then [telemetry_url E K l so (dhtHumidity E (t + 6)) (dhtTemperature E (t + 7))
                    (if pump_branch so w (snd (localTime E (t + 5))) l then 1 else 0) (bool_int w)]
            else [])"
    unfolding Let_def e(2) tk by (simp add: readSensors_simps(1) eval_nat_numeral)
  with tr show ?thesis by blast
qed

text \<open>
  C9, as the code has it (light-aware variant). With \<open>t\<close> the tick at which the sensors are
  read, the snapshot holds the light read at \<open>t\<close>, the soil at \<open>t + 1\<close>, the humidity at
  \<open>t + 2\<close>, the temperature at \<open>t + 3\<close> and the water level at \<open>t + 4\<close>. The request of the
  cycle, made if \<open>WiFi.status()\<close> answers connected at \<open>t + 8\<close>, carries the snapshot's light,
  soil and water level, but the humidity and the temperature of two further reads of the DHT,
  at \<open>t + 6\<close> and \<open>t + 7\<close>, made inside \<open>handleWateringLogic\<close> after the branch has run.
\<close>

theorem telemetry_rereads_dht:
  "let s2 = loop_resync E (loop_reconnect E K s); t = tick s2; snap = fst (readSensors E s2) in
     snap_light snap = analogIn E LDR_PIN t \<and> snap_soil snap = analogIn E SOIL_PIN (t + 1)
     \<and> snap_humidity snap = dhtHumidity E (t + 2)
     \<and> snap_temperature snap = dhtTemperature E (t + 3)
     \<and> snap_haAgua snap = (digitalIn E BOIA_PIN (t + 4) = LOW)
     \<and> http_urls (emitted s2 (loop E K s)) =
         (if WiFi_connected E (t + 8)
          then [telemetry_url E K (snap_light snap) (snap_soil snap)
                  (dhtHumidity E (t + 6)) (dhtTemperature E (t + 7))
                  (if pump_branch (snap_soil snap) (snap_haAgua snap) (snd (localTime E (t + 5)))
                        (snap_light snap) then 1 else 0)
                  (bool_int (snap_haAgua snap))]
          else [])"
proof -
  obtain evs where e: "trace (loop E K s) = trace (loop_resync E (loop_reconnect E K s)) @ evs"
     "http_urls evs =
        (let t = tick (loop_resync E (loop_reconnect E K s));
             l = analogIn E LDR_PIN t; so = analogIn E SOIL_PIN (t + 1);
             w = (digitalIn E BOIA_PIN (t + 4) = LOW)
         in if WiFi_connected E (t + 8)
            then [telemetry_url E K l so (dhtHumidity E (t + 6)) (dhtTemperature E (t + 7))
                    (if pump_branch so w (snd (localTime E (t + 5))) l then 1 else 0) (bool_int w)]
            else [])"
    using loop_urls [of E K s] by blast
  have em: "emitted (loop_resync E (loop_reconnect E K s)) (loop E K s) = evs"
    using e(1) by simp
  show ?thesis
    unfolding Let_def em e(2) by (simp add: readSensors_simps(1) Let_def)
qed

lemma cycle0:
  "loop_resync env0 (loop_reconnect env0 chaves0 state0) = state0\<lparr>tick := 1\<rparr>"
  by (simp add: loop_resync_def loop_reconnect_def WiFi_status_def state0_def env0_def)

lemma pump_branch_0: "pump_branch 1500 True 20 2000"
  by (simp add: pump_branch_def isNightHour_def NIGHT_START_HOUR_def NIGHT_END_HOUR_def)

lemma url_60:
  "telemetry_url env0 chaves0 2000 1500 0x42700000 0x41C80000 1 1 =
   ''http://api.thingspeak.com/update?api_key=KEY&field1=2000&field2=1500&field3=60.00&field4=25.00&field5=1&field6=1''"
  by (simp add: telemetry_url_def env0_def chaves0_def String_int_def digits.simps digit_char_def)

lemma cycle0_urls:
  "http_urls (trace (loop env0 chaves0 state0)) =
     [telemetry_url env0 chaves0 2000 1500 0x42700000 0x41C80000 1 1]"
proof -
  obtain evs where e: "trace (loop env0 chaves0 state0) = trace (state0\<lparr>tick := 1\<rparr>) @ evs"
     "http_urls evs =
        (let t = tick (state0\<lparr>tick := 1\<rparr>);
             l = analogIn env0 LDR_PIN t; so = analogIn env0 SOIL_PIN (t + 1);
             w = (digitalIn env0 BOIA_PIN (t + 4) = LOW)
         in if WiFi_connected env0 (t + 8)
            then [telemetry_url env0 chaves0 l so (dhtHumidity env0 (t + 6)) (dhtTemperature env0 (t + 7))
                    (if pump_branch so w (snd (localTime env0 (t + 5))) l then 1 else 0) (bool_int w)]
            else [])"
    using loop_urls [of env0 chaves0 state0] unfolding cycle0 by blast
  have "trace (state0\<lparr>tick := 1\<rparr>) = []" by (simp add: state0_def)
  then show ?thesis
    using e(2) by (simp add: e(1) Let_def env0_facts pump_branch_0 bool_int_def)
qed

theorem telemetry_rereads_dht_witness:
  "WiFi_connected env0 (tick (loop_resync env0 (loop_reconnect env0 chaves0 state0)) + 8)
   \<and> snap_humidity (fst (readSensors env0 (loop_resync env0 (loop_reconnect env0 chaves0 state0))))
       = 0x42480000
   \<and> http_urls (emitted (loop_resync env0 (loop_reconnect env0 chaves0 state0))
                  (loop env0 chaves0 state0)) =
       [telemetry_url env0 chaves0 2000 1500 0x42700000 0x41C80000 1 1]"
  using telemetry_rereads_dht [where E = env0 and K = chaves0 and s = state0]
  by (simp add: cycle0 Let_def env0_facts pump_branch_0 bool_int_def)

text \<open>
  C9, as stated, fails: in the environment \<open>env0\<close> the cycle reads 50 % into its snapshot
  (rendered \<open>50.00\<close>) and uploads \<open>field3=60.00\<close>, the answer of the later read.
\<close>

theorem telemetry_snapshot_counterexample:
  "snap_humidity (fst (readSensors env0 (loop_resync env0 (loop_reconnect env0 chaves0 state0))))
     = 0x42480000
   \<and> floatStr env0 0x42480000 = ''50.00''
   \<and> http_urls (trace (loop env0 chaves0 state0)) =
     [''http://api.thingspeak.com/update?api_key=KEY&field1=2000&field2=1500&field3=60.00&field4=25.00&field5=1&field6=1'']"
proof -
  have "snap_humidity (fst (readSensors env0 (state0\<lparr>tick := 1\<rparr>))) = 0x42480000"
    by (simp add: readSensors_simps(1) env0_facts)
  moreover have "floatStr env0 0x42480000 = ''50.00''"
    by (simp add: env0_def)
  ultimately show ?thesis
    unfolding cycle0 cycle0_urls url_60 by blast
qed

text \<open>
  The relay across cycles: whatever its level when a cycle of \<open>loop\<close> starts, it is \<open>HIGH\<close>
  when the cycle ends, since \<open>handleWateringLogic\<close> runs in every cycle and nothing after it
  writes the relay.
\<close>

lemma loop_act_flags:
  "wifiConnected (loop_act E K snap s) = wifiConnected s"
  by (cases "localTime E (tick s)")
     (simp add: loop_act_def Let_def getLocalTime_def prim_defs hWL_eq branches_simps
        printSensorData_simps)

lemma loop_act_relay:
  "\<exists>evs. trace (loop_act E K snap s) = trace s @ evs \<and> (\<forall>l. relay_after l evs = HIGH)"
proof -
  let ?s1 = "printSensorData (snap_light snap) (snap_soil snap) (snap_humidity snap)
                 (snap_temperature snap) (snap_haAgua snap) s"
  obtain evs1 where e1: "trace ?s1 = trace s @ evs1"
    using printSensorData_simps(1) by blast
  have t1: "tick ?s1 = tick s" by (rule printSensorData_simps(2))
  let ?hour = "snd (localTime E (tick s))"
  let ?s2 = "?s1\<lparr>tick := Suc (tick s)\<rparr>"
  let ?s3 = "handleWateringLogic E K (snap_soil snap) (snap_haAgua snap) ?hour (snap_light snap) ?s2"
  obtain evs2 where e2: "trace ?s3 = trace ?s2 @ evs2"
    using hWL_urls [of E K "snap_soil snap" "snap_haAgua snap" ?hour "snap_light snap" ?s2]
    by blast
  have "emitted ?s2 ?s3 = evs2"
    using e2 by (rule emitted_append)
  then have r: "\<And>l. relay_after l evs2 = HIGH"
    using hWL_relay [of _ ?s2 E K "snap_soil snap" "snap_haAgua snap" ?hour "snap_light snap"]
    by simp
  have la: "loop_act E K snap s = delay LOOP_DELAY_MS (snd (updateLocalTime E ?s3))"
    by (cases "localTime E (tick s)") (simp add: loop_act_def Let_def getLocalTime_def t1)
  have tl: "\<And>l x. relay_after l (time_log x) = l"
  proof -
    fix l x show "relay_after l (time_log x) = l" by (cases x) simp
  qed
  show ?thesis
    by (rule exI [of _ "evs1 @ evs2 @ time_log (localTime E (tick ?s3)) @ [Delay LOOP_DELAY_MS]"])
       (simp add: la prim_defs e1 e2 r tl)
qed

lemma loop_reconnect_trace: "\<exists>evs. trace (loop_reconnect E K s) = trace s @ evs"
proof (cases "\<not> WiFi_connected E (tick s) \<and> wifiConnected s")
  case True
  let ?s1 = "(Serial_println ''Wi-Fi desconectado! Tentando reconectar...''
               (s\<lparr>tick := Suc (tick s)\<rparr>))\<lparr>wifiConnected := False\<rparr>"
  let ?start = "''Iniciando tentativa de conex'' @ [CHR 0xC3, CHR 0xA3] @ ''o em redes salvas...''"
  let ?s0 = "(Serial_println ?start ?s1)\<lparr>wifiConnected := False\<rparr>"
  have lr: "loop_reconnect E K s = connectWiFi E K ?s1"
    using True by (simp add: loop_reconnect_def WiFi_status_def)
  obtain evs where e: "trace (snd (connectWiFi_loop E (WIFI_LIST K) ?s0)) = trace ?s0 @ evs"
    using connectWiFi_loop_spec [of E "WIFI_LIST K" ?s0] by blast
  have "\<exists>evs'. trace (connectWiFi E K ?s1) = trace ?s1 @ evs'"
    by (cases "connectWiFi_loop E (WIFI_LIST K) ?s0")
       (use e in \<open>auto simp: connectWiFi_def Let_def prim_defs\<close>)
  then show ?thesis
    by (auto simp: lr prim_defs)
next
  case False
  then have "loop_reconnect E K s = s\<lparr>tick := Suc (tick s)\<rparr>"
    by (auto simp: loop_reconnect_def WiFi_status_def)
  then show ?thesis by simp
qed

lemma loop_resync_trace: "\<exists>evs. trace (loop_resync E s) = trace s @ evs \<and> (\<forall>l. relay_after l evs = l)"
proof -
  have tl: "\<And>l x. relay_after l (time_log x) = l"
  proof -
    fix l x show "relay_after l (time_log x) = l" by (cases x) simp
  qed
  show ?thesis
    by (simp add: loop_resync_def tl)
qed

lemma relay_high_after_cycle:
  "relay_after l (emitted s (loop E K s)) = HIGH"
proof -
  let ?s1 = "loop_reconnect E K s"
  let ?s2 = "loop_resync E ?s1"
  let ?snap = "fst (readSensors E ?s2)"
  let ?s3 = "?s2\<lparr>tick := tick ?s2 + 5\<rparr>"
  have l: "loop E K s = loop_act E K ?snap ?s3"
    by (simp add: loop_def readSensors_simps(2) split: prod.splits)
       (metis readSensors_simps(2) snd_conv)
  obtain evs1 where 1: "trace ?s1 = trace s @ evs1"
    using loop_reconnect_trace by blast
  obtain evs2 where 2: "trace ?s2 = trace ?s1 @ evs2"
    using loop_resync_trace by blast
  obtain evs3 where 3: "trace (loop_act E K ?snap ?s3) = trace ?s3 @ evs3"
      "\<forall>l. relay_after l evs3 = HIGH"
    using loop_act_relay by blast
  have "trace (loop E K s) = trace s @ (evs1 @ evs2 @ evs3)"
    using 1 2 3(1) by (simp add: l)
  then have "emitted s (loop E K s) = evs1 @ evs2 @ evs3"
    by (rule emitted_append)
  then show ?thesis
    using 3(2) by simp
qed

text \<open>
  The flag and the link inside one cycle: starting with \<open>wifiConnected\<close> true and a link that
  answers the reconnection check and then drops, the flag is true when the sensors are read and
  still true at the end of the cycle, and the cycle makes no request.
\<close>

lemma env_drop_cycle:
  "loop_resync env_drop (loop_reconnect env_drop chaves0 state_up) =
     snd (updateLocalTime env_drop (state_up\<lparr>tick := 1\<rparr>))"
  by (simp add: loop_resync_def loop_reconnect_def WiFi_status_def env_drop_def env0_def
        state_up_def state0_def)

lemma flag_true_link_down_in_cycle:
  "wifiConnected (loop_resync env_drop (loop_reconnect env_drop chaves0 state_up))
   \<and> wifiConnected (loop env_drop chaves0 state_up)
   \<and> http_urls (emitted (loop_resync env_drop (loop_reconnect env_drop chaves0 state_up))
        (loop env_drop chaves0 state_up)) = []"
proof -
  let ?s2 = "loop_resync env_drop (loop_reconnect env_drop chaves0 state_up)"
  let ?snap = "fst (readSensors env_drop ?s2)"
  let ?s3 = "?s2\<lparr>tick := tick ?s2 + 5\<rparr>"
  have l: "loop env_drop chaves0 state_up = loop_act env_drop chaves0 ?snap ?s3"
    by (simp add: loop_def readSensors_simps(2) split: prod.splits)
       (metis readSensors_simps(2) snd_conv)
  have w: "wifiConnected ?s2"
    unfolding env_drop_cycle by (simp add: state_up_def state0_def)
  have w': "wifiConnected (loop env_drop chaves0 state_up)"
    using w by (simp add: l loop_act_flags)
  have d: "\<And>t. \<not> WiFi_connected env_drop (t + 8)"
    by (simp add: env_drop_def)
  obtain evs where e: "trace (loop env_drop chaves0 state_up) = trace ?s2 @ evs"
     "http_urls evs = []"
    using loop_urls [of env_drop chaves0 state_up] by (auto simp: Let_def d)
  have "emitted ?s2 (loop env_drop chaves0 state_up) = evs"
    using e(1) by (rule emitted_append)
  with w w' e(2) show ?thesis by simp
qed

section \<open>The order of the arguments of the telemetry call\<close>

lemma sendToThingSpeak_env:
  assumes "WiFi_connected E' = WiFi_connected E" "httpAnswer E' = httpAnswer E"
    "floatStr E' = floatStr E"
  shows "sendToThingSpeak E' K luz solo umidAr temp bomba agua s =
         sendToThingSpeak E K luz solo umidAr temp bomba agua s"
  using assms by (simp add: sendToThingSpeak_def read_defs telemetry_url_def)

lemma hWL_rtl_eq:
  "handleWateringLogic_rtl E K soil haAgua hour lightValue s =
     sendToThingSpeak E K lightValue soil (dhtHumidity E (Suc (tick s))) (dhtTemperature E (tick s))
       (if pump_branch soil haAgua hour lightValue then 1 else 0) (bool_int haAgua)
       ((snd (handleWateringLogic_branches soil haAgua hour lightValue s))\<lparr>tick := tick s + 2\<rparr>)"
proof -
  obtain b s1 where br: "handleWateringLogic_branches soil haAgua hour lightValue s = (b, s1)"
    by (cases "handleWateringLogic_branches soil haAgua hour lightValue s")
  have "b = (if pump_branch soil haAgua hour lightValue then 1 else 0)" "tick s1 = tick s"
    using branches_simps(1,2) [of soil haAgua hour lightValue s] br by simp_all
  then show ?thesis
    by (simp add: handleWateringLogic_rtl_def br read_defs)
qed

lemma hWL_v2_rtl_eq:
  "handleWateringLogic_v2_rtl E K soil haAgua hour s =
     sendToThingSpeak E K (level_int (digitalIn E LDR_PIN_v2 (Suc (Suc (tick s))))) soil
       (dhtHumidity E (Suc (tick s))) (dhtTemperature E (tick s))
       (if pump_branch_v2 soil haAgua hour then 1 else 0) (bool_int haAgua)
       ((snd (handleWateringLogic_branches_v2 soil haAgua hour s))
          \<lparr>tick := Suc (Suc (Suc (tick s)))\<rparr>)"
proof -
  obtain b s1 where br: "handleWateringLogic_branches_v2 soil haAgua hour s = (b, s1)"
    by (cases "handleWateringLogic_branches_v2 soil haAgua hour s")
  have "b = (if pump_branch_v2 soil haAgua hour then 1 else 0)" "tick s1 = tick s"
    using branches_v2_simps(1,2) [of soil haAgua hour s] br by simp_all
  then show ?thesis
    by (simp add: handleWateringLogic_v2_rtl_def br read_defs)
qed

lemma reads_exchanged_send [simp]:
  "sendToThingSpeak (reads_exchanged E t) K luz solo umidAr temp bomba agua s =
     sendToThingSpeak E K luz solo umidAr temp bomba agua s"
  "sendToThingSpeak (reads_exchanged_v2 E t) K luz solo umidAr temp bomba agua s =
     sendToThingSpeak E K luz solo umidAr temp bomba agua s"
  by (rule sendToThingSpeak_env; simp add: reads_exchanged_def reads_exchanged_v2_def)+

lemma reads_exchanged_simps [simp]:
  "dhtHumidity (reads_exchanged E t) t = dhtHumidity E (Suc t)"
  "dhtTemperature (reads_exchanged E t) (Suc t) = dhtTemperature E t"
  "digitalIn (reads_exchanged_v2 E t) LDR_PIN_v2 t = digitalIn E LDR_PIN_v2 (Suc (Suc t))"
  "dhtHumidity (reads_exchanged_v2 E t) (Suc t) = dhtHumidity E (Suc t)"
  "dhtTemperature (reads_exchanged_v2 E t) (Suc (Suc t)) = dhtTemperature E t"
  by (simp_all add: reads_exchanged_def reads_exchanged_v2_def)

text \<open>
  Right to left in \<open>E\<close> is left to right in the environment with the answers exchanged; and the
  request made right to left carries the same light, soil, pump flag and water flag, with the
  humidity read at the second tick and the temperature at the first.
\<close>

lemma argument_order:
  "handleWateringLogic_rtl E K soil haAgua hour lightValue s =
     handleWateringLogic (reads_exchanged E (tick s)) K soil haAgua hour lightValue s"
  "handleWateringLogic_v2_rtl E K soil haAgua hour s =
     handleWateringLogic_v2 (reads_exchanged_v2 E (tick s)) K soil haAgua hour s"
  by (simp_all add: hWL_rtl_eq hWL_eq hWL_v2_rtl_eq hWL_v2_eq)

lemma argument_order_request:
  "http_urls (emitted s (handleWateringLogic_rtl E K soil haAgua hour lightValue s)) =
     (if WiFi_connected E (tick s + 2)
      then [telemetry_url E K lightValue soil (dhtHumidity E (Suc (tick s)))
              (dhtTemperature E (tick s))
              (if pump_branch soil haAgua hour lightValue then 1 else 0) (bool_int haAgua)]
      else [])"
proof -
  obtain evs where e:
    "trace (snd (handleWateringLogic_branches soil haAgua hour lightValue s)) = trace s @ evs"
    "http_urls evs = []"
    using branches_urls [of soil haAgua hour lightValue s] by blast
  show ?thesis
    by (simp add: hWL_rtl_eq e)
qed

end
